theory Spec2Isabelle
  imports Main
begin

section \<open>Strings\<close>

text \<open>
  A Python \<open>str\<close> is a sequence of code points. It is modelled as a \<open>string\<close> whose
  characters are the code points U+0000 to U+00FF, so \<open>of_char c\<close> is the code point of
  \<open>c\<close>. The character tables below are those of Python 3 on that range.
\<close>

definition ascii_lowercase :: "char \<Rightarrow> bool" where
  "ascii_lowercase c = (let n = (of_char c :: nat) in 97 \<le> n \<and> n \<le> 122)"

definition ascii_uppercase :: "char \<Rightarrow> bool" where
  "ascii_uppercase c = (let n = (of_char c :: nat) in 65 \<le> n \<and> n \<le> 90)"

text \<open>
  \<open>str.isspace\<close> and the class \<open>\s\<close> of a \<open>str\<close> pattern: the ASCII white space
  (TAB, LF, VT, FF, CR, the separators FS, GS, RS, US, and the space), NEL and the
  no-break space.
\<close>

definition py_isspace :: "char \<Rightarrow> bool" where
  "py_isspace c = (let n = (of_char c :: nat) in
     (9 \<le> n \<and> n \<le> 13) \<or> (28 \<le> n \<and> n \<le> 32) \<or> n = 133 \<or> n = 160)"

text \<open>
  \<open>str.isalnum\<close>: the ASCII digits and letters, the ordinal indicators, the
  superscript digits, the micro sign, the vulgar fractions, and the accented letters
  (all of U+00C0 to U+00FF but the multiplication and the division sign).
\<close>

definition py_isalnum :: "char \<Rightarrow> bool" where
  "py_isalnum c = (let n = (of_char c :: nat) in
     (48 \<le> n \<and> n \<le> 57) \<or> (65 \<le> n \<and> n \<le> 90) \<or> (97 \<le> n \<and> n \<le> 122)
     \<or> n = 170 \<or> n = 178 \<or> n = 179 \<or> n = 181 \<or> n = 185 \<or> n = 186
     \<or> (188 \<le> n \<and> n \<le> 190) \<or> (192 \<le> n \<and> n \<le> 214)
     \<or> (216 \<le> n \<and> n \<le> 246) \<or> (248 \<le> n \<and> n \<le> 255))"

text \<open>
  \<open>str.lower\<close>: on this range lowercasing is character by character; the capital
  letters A to Z and U+00C0 to U+00DE (but the multiplication sign U+00D7) move up by
  32, every other character is kept.
\<close>

definition lower_char :: "char \<Rightarrow> char" where
  "lower_char c = (let n = (of_char c :: nat) in
     if (65 \<le> n \<and> n \<le> 90) \<or> (192 \<le> n \<and> n \<le> 214) \<or> (216 \<le> n \<and> n \<le> 222)
     then char_of (n + 32) else c)"

definition str_lower :: "string \<Rightarrow> string" where
  "str_lower s = map lower_char s"

text \<open>\<open>sep.join(parts)\<close>.\<close>

fun str_join :: "string \<Rightarrow> string list \<Rightarrow> string" where
  "str_join sep [] = []"
| "str_join sep [p] = p"
| "str_join sep (p # q # ps) = p @ sep @ str_join sep (q # ps)"

text \<open>
  \<open>re.sub(pattern, repl, text)\<close> for a pattern that is one character class: the text
  is scanned from the left, every character of the class is replaced by \<open>repl\<close>, every
  other character is kept.
\<close>

fun re_sub_class :: "(char \<Rightarrow> bool) \<Rightarrow> string \<Rightarrow> string \<Rightarrow> string" where
  "re_sub_class cls repl [] = []"
| "re_sub_class cls repl (c # cs) =
     (if cls c then repl @ re_sub_class cls repl cs else c # re_sub_class cls repl cs)"

section \<open>DataPreprocessor: clean\_text\<close>

text \<open>The class \<open>[^a-zA-Z\s]\<close> of \<open>clean_text\<close>.\<close>

definition special_or_number :: "char \<Rightarrow> bool" where
  "special_or_number c = (\<not> (ascii_lowercase c \<or> ascii_uppercase c \<or> py_isspace c))"

text \<open>
  \<^verbatim>\<open>text = text.lower(); text = re.sub(r'[^a-zA-Z\s]', '', text); return text\<close>
\<close>

definition clean_text :: "string \<Rightarrow> string" where
  "clean_text text = re_sub_class special_or_number [] (str_lower text)"

section \<open>DataRetriever: \_sanitize\_filename\<close>

text \<open>
  \<^verbatim>\<open>return "".join(c if c.isalnum() or c in "._-" else "_" for c in name)\<close>
\<close>

definition sanitize_filename :: "string \<Rightarrow> string" where
  "sanitize_filename name =
     str_join [] (map (\<lambda>c. if py_isalnum c \<or> c \<in> set ''._-'' then [c] else ''_'') name)"

section \<open>Values, exceptions and the world\<close>

text \<open>
  The values a comment record or a JSON document holds (\<open>Any\<close> in the annotations):
  \<open>None\<close>, strings, integers, lists, and dictionaries in insertion order.
\<close>

datatype pyval =
    PNone
  | PStr string
  | PInt int
  | PList "pyval list"
  | PDict "(string \<times> pyval) list"

text \<open>
  The exceptions the code names or can meet. \<open>HTTPError\<close>, with the status code of
  the response, is the \<open>RequestException\<close> that \<open>raise_for_status\<close> raises;
  \<open>FileNotFoundError\<close> is an \<open>OSError\<close> (\<open>IOError\<close> is an alias of
  \<open>OSError\<close>); \<open>JSONDecodeError\<close> is a \<open>ValueError\<close>. All of them are instances
  of \<open>Exception\<close>.
\<close>

datatype error =
    RequestException string
  | HTTPError int
  | ParseError string
  | TypeError
  | ValueError
  | OverflowError
  | AttributeError
  | KeyError string
  | OSError string
  | FileNotFoundError
  | JSONDecodeError
  | OtherException string

fun is_RequestException :: "error \<Rightarrow> bool" where
  "is_RequestException (RequestException m) = True"
| "is_RequestException (HTTPError status) = True"
| "is_RequestException e = False"

fun is_ParseError :: "error \<Rightarrow> bool" where
  "is_ParseError (ParseError m) = True"
| "is_ParseError e = False"

fun is_IOError :: "error \<Rightarrow> bool" where
  "is_IOError (OSError m) = True"
| "is_IOError FileNotFoundError = True"
| "is_IOError e = False"

datatype level = INFO | WARNING | ERROR

text \<open>The log messages of the three classes, with the values their f-strings interpolate.\<close>

datatype message =
    ApiCallFailed int error
  | FailedToParseXml error
  | NoGameFound string
  | FailedGameId string error
  | NoInformationFound int
  | FailedGameInfo int error
  | FailedComments int error
  | GameNotFound string
  | RetrievedComments nat string
  | ErrorRetrieving string error
  | SavedComments string string
  | FailedSaveComments string error
  | SavedFullDataset string
  | FailedSaveFullDataset error
  | LoadedDataset string
  | DatasetNotFound string
  | FailedParseJson string error
  | TokenizationError error

text \<open>
  What the process has done to its surroundings: the number of HTTP GETs issued, the
  arguments of the calls of \<open>time.sleep\<close>, the GETs (by their number), the sleeps and
  the writes to files (path and text) in the order in which they happened, the log
  records, and the files (path to text).
\<close>

datatype action = GET nat | SLEEP int | WRITE string string

record world =
  gets :: nat
  sleeps :: "int list"
  timeline :: "action list"
  logs :: "(level \<times> message) list"
  files :: "string \<Rightarrow> string option"

definition logger :: "level \<Rightarrow> message \<Rightarrow> world \<Rightarrow> world" where
  "logger lv m w = w\<lparr>logs := logs w @ [(lv, m)]\<rparr>"

text \<open>
  \<open>time.sleep(secs)\<close> for an integer: the seconds are turned into nanoseconds in 64
  bits, and \<open>OverflowError\<close> is raised when they do not fit; then \<open>ValueError\<close> is
  raised on a negative argument.
\<close>

definition max_sleep :: int where
  "max_sleep = 9223372036"

definition time_sleep :: "int \<Rightarrow> world \<Rightarrow> error + world" where
  "time_sleep secs w =
     (if secs < - max_sleep \<or> max_sleep < secs then Inl OverflowError
      else if secs < 0 then Inl ValueError
      else Inr (w\<lparr>sleeps := sleeps w @ [secs], timeline := timeline w @ [SLEEP secs]\<rparr>))"

text \<open>\<open>range(n)\<close>: empty when \<open>n \<le> 0\<close>.\<close>

definition py_range :: "int \<Rightarrow> int list" where
  "py_range n = map int [0..<nat n]"

section \<open>XML elements\<close>

text \<open>
  An \<open>xml.etree.ElementTree.Element\<close>: tag, attributes, text and children.
  \<open>elem_get\<close> is \<open>Element.get\<close>; \<open>elem_find e t\<close> is \<open>e.find(t)\<close> for a plain tag
  \<open>t\<close>, the first child with that tag; \<open>elem_findall_descendants e t\<close> is
  \<open>e.findall(".//t")\<close>, the elements below \<open>e\<close> with that tag, in document order.
\<close>

datatype element =
  Element (tag: string) (attrib: "(string \<times> string) list") (elem_text: "string option")
    (children: "element list")

definition elem_get :: "element \<Rightarrow> string \<Rightarrow> string option" where
  "elem_get e key = map_of (attrib e) key"

definition elem_find :: "element \<Rightarrow> string \<Rightarrow> element option" where
  "elem_find e t = find (\<lambda>c. tag c = t) (children e)"

fun elem_iter :: "element \<Rightarrow> element list" where
  "elem_iter (Element t a x cs) = Element t a x cs # concat (map elem_iter cs)"

definition elem_findall_descendants :: "element \<Rightarrow> string \<Rightarrow> element list" where
  "elem_findall_descendants e t =
     filter (\<lambda>d. tag d = t) (concat (map elem_iter (children e)))"

section \<open>BGGDataClient\<close>

text \<open>
  The surroundings of the client. \<open>http_get k url params\<close> is the outcome of
  \<open>requests.get(url, params=params)\<close> when \<open>k\<close> GETs have been issued before: the
  response, or the exception raised (a \<open>RequestException\<close> for a connection error or
  a timeout). \<open>fromstring\<close> is \<open>ET.fromstring\<close> and \<open>int_of_str\<close> is \<open>int\<close> on a
  \<open>str\<close>.
\<close>

record response =
  status_code :: int
  response_text :: string

text \<open>\<open>response.raise_for_status()\<close> raises for the status codes 400 to 599.\<close>

definition raise_for_status :: "response \<Rightarrow> error option" where
  "raise_for_status resp =
     (if 400 \<le> status_code resp \<and> status_code resp < 600
      then Some (HTTPError (status_code resp)) else None)"

record env =
  http_get :: "nat \<Rightarrow> string \<Rightarrow> (string \<times> pyval) list \<Rightarrow> error + response"
  fromstring :: "string \<Rightarrow> error + element"
  int_of_str :: "string \<Rightarrow> error + int"

record client =
  max_retries :: int
  retry_delay :: int
  api_base_url :: string

definition BGGDataClient :: "int \<Rightarrow> int \<Rightarrow> client" where
  "BGGDataClient mr rd =
     \<lparr>max_retries = mr, retry_delay = rd,
      api_base_url = ''https://boardgamegeek.com/xmlapi2''\<rparr>"

text \<open>
  The body of the \<open>try\<close> of \<open>_safe_api_call\<close> when \<open>k\<close> GETs have been issued
  before: the text of the response, or the exception of \<open>requests.get\<close> or of
  \<open>raise_for_status\<close>.
\<close>

definition http_attempt ::
  "env \<Rightarrow> nat \<Rightarrow> string \<Rightarrow> (string \<times> pyval) list \<Rightarrow> error + string" where
  "http_attempt ev k url params =
     (case http_get ev k url params of
        Inl e \<Rightarrow> Inl e
      | Inr resp \<Rightarrow>
          (case raise_for_status resp of
             Some e \<Rightarrow> Inl e
           | None \<Rightarrow> Inr (response_text resp)))"

text \<open>
  The GET fails: \<open>requests.get\<close> raises a \<open>RequestException\<close> (a connection error, a
  timeout), or the response has an error status, for which \<open>raise_for_status\<close>
  raises.
\<close>

definition get_fails :: "env \<Rightarrow> nat \<Rightarrow> string \<Rightarrow> (string \<times> pyval) list \<Rightarrow> bool" where
  "get_fails ev k url params =
     (case http_get ev k url params of
        Inl e \<Rightarrow> is_RequestException e
      | Inr resp \<Rightarrow> 400 \<le> status_code resp \<and> status_code resp < 600)"

text \<open>
  The loop of \<open>_safe_api_call\<close> over the attempts that are left. When the loop ends
  without a return the function returns \<open>None\<close>.
\<close>

fun api_attempts ::
  "client \<Rightarrow> env \<Rightarrow> string \<Rightarrow> (string \<times> pyval) list \<Rightarrow> int list \<Rightarrow> world
     \<Rightarrow> (error + string option) \<times> world" where
  "api_attempts cl ev url params [] w = (Inr None, w)"
| "api_attempts cl ev url params (attempt # rest) w =
     (let w1 = w\<lparr>gets := Suc (gets w), timeline := timeline w @ [GET (gets w)]\<rparr> in
      case http_attempt ev (gets w) url params of
        Inr body \<Rightarrow> (Inr (Some body), w1)
      | Inl e \<Rightarrow>
          if is_RequestException e then
            (let w2 = logger WARNING (ApiCallFailed (attempt + 1) e) w1 in
             if attempt < max_retries cl - 1 then
               (case time_sleep (retry_delay cl * (attempt + 1)) w2 of
                  Inl e' \<Rightarrow> (Inl e', w2)
                | Inr w3 \<Rightarrow> api_attempts cl ev url params rest w3)
             else (Inl e, w2))
          else (Inl e, w1))"

definition safe_api_call ::
  "client \<Rightarrow> env \<Rightarrow> string \<Rightarrow> (string \<times> pyval) list \<Rightarrow> world
     \<Rightarrow> (error + string option) \<times> world" where
  "safe_api_call cl ev url params w =
     api_attempts cl ev url params (py_range (max_retries cl)) w"

text \<open>
  \<open>_parse_xml\<close>. Its argument is what \<open>_safe_api_call\<close> returned; on \<open>None\<close>,
  \<open>ET.fromstring\<close> raises \<open>TypeError\<close>. Only a \<open>ParseError\<close> is logged here.
\<close>

definition parse_xml :: "env \<Rightarrow> string option \<Rightarrow> world \<Rightarrow> (error + element) \<times> world" where
  "parse_xml ev xml_string w =
     (case xml_string of
        None \<Rightarrow> (Inl TypeError, w)
      | Some s \<Rightarrow>
          (case fromstring ev s of
             Inr root \<Rightarrow> (Inr root, w)
           | Inl e \<Rightarrow>
               if is_ParseError e then (Inl e, logger ERROR (FailedToParseXml e) w)
               else (Inl e, w)))"

text \<open>\<open>int(x)\<close> for \<open>x\<close> the result of \<open>Element.get\<close>: \<open>int(None)\<close> raises \<open>TypeError\<close>.\<close>

definition py_int :: "env \<Rightarrow> string option \<Rightarrow> error + int" where
  "py_int ev x = (case x of None \<Rightarrow> Inl TypeError | Some s \<Rightarrow> int_of_str ev s)"

definition search_url :: "client \<Rightarrow> string" where
  "search_url cl = api_base_url cl @ ''/search''"

definition search_params :: "string \<Rightarrow> (string \<times> pyval) list" where
  "search_params game_name = [(''query'', PStr game_name), (''type'', PStr ''boardgame'')]"

text \<open>The body of the \<open>try\<close> of \<open>get_game_id\<close>.\<close>

definition get_game_id_try ::
  "client \<Rightarrow> env \<Rightarrow> string \<Rightarrow> world \<Rightarrow> (error + int option) \<times> world" where
  "get_game_id_try cl ev game_name w =
     (case safe_api_call cl ev (search_url cl) (search_params game_name) w of
        (Inl e, w1) \<Rightarrow> (Inl e, w1)
      | (Inr xml_data, w1) \<Rightarrow>
          (case parse_xml ev xml_data w1 of
             (Inl e, w2) \<Rightarrow> (Inl e, w2)
           | (Inr root, w2) \<Rightarrow>
               (case elem_find root ''item'' of
                  Some game \<Rightarrow>
                    (case py_int ev (elem_get game ''id'') of
                       Inl e \<Rightarrow> (Inl e, w2)
                     | Inr n \<Rightarrow> (Inr (Some n), w2))
                | None \<Rightarrow> (Inr None, logger WARNING (NoGameFound game_name) w2))))"

text \<open>\<open>get_game_id\<close>: \<open>except Exception\<close> turns every exception into \<open>None\<close>.\<close>

definition get_game_id ::
  "client \<Rightarrow> env \<Rightarrow> string \<Rightarrow> world \<Rightarrow> (error + int option) \<times> world" where
  "get_game_id cl ev game_name w =
     (case get_game_id_try cl ev game_name w of
        (Inr r, w1) \<Rightarrow> (Inr r, w1)
      | (Inl e, w1) \<Rightarrow> (Inr None, logger ERROR (FailedGameId game_name e) w1))"

record game_info =
  info_id :: int
  info_name :: "string option"
  info_year :: "string option"
  info_description :: "string option"

definition thing_url :: "client \<Rightarrow> string" where
  "thing_url cl = api_base_url cl @ ''/thing''"

definition info_params :: "int \<Rightarrow> (string \<times> pyval) list" where
  "info_params game_id = [(''id'', PInt game_id)]"

definition get_game_info_try ::
  "client \<Rightarrow> env \<Rightarrow> int \<Rightarrow> world \<Rightarrow> (error + game_info option) \<times> world" where
  "get_game_info_try cl ev game_id w =
     (case safe_api_call cl ev (thing_url cl) (info_params game_id) w of
        (Inl e, w1) \<Rightarrow> (Inl e, w1)
      | (Inr xml_data, w1) \<Rightarrow>
          (case parse_xml ev xml_data w1 of
             (Inl e, w2) \<Rightarrow> (Inl e, w2)
           | (Inr root, w2) \<Rightarrow>
               (case elem_find root ''item'' of
                  Some item \<Rightarrow>
                    (Inr (Some
                       \<lparr>info_id = game_id,
                        info_name =
                          (case elem_find item ''name'' of
                             Some n \<Rightarrow> elem_get n ''value'' | None \<Rightarrow> None),
                        info_year =
                          (case elem_find item ''yearpublished'' of
                             Some y \<Rightarrow> elem_get y ''value'' | None \<Rightarrow> None),
                        info_description =
                          (case elem_find item ''description'' of
                             Some d \<Rightarrow> elem_text d | None \<Rightarrow> None)\<rparr>), w2)
                | None \<Rightarrow> (Inr None, logger WARNING (NoInformationFound game_id) w2))))"

definition get_game_info ::
  "client \<Rightarrow> env \<Rightarrow> int \<Rightarrow> world \<Rightarrow> (error + game_info option) \<times> world" where
  "get_game_info cl ev game_id w =
     (case get_game_info_try cl ev game_id w of
        (Inr r, w1) \<Rightarrow> (Inr r, w1)
      | (Inl e, w1) \<Rightarrow> (Inr None, logger ERROR (FailedGameInfo game_id e) w1))"

definition comments_params :: "int \<Rightarrow> int \<Rightarrow> (string \<times> pyval) list" where
  "comments_params game_id max_comments =
     [(''id'', PInt game_id), (''comments'', PInt 1), (''ratingcomments'', PInt 1),
      (''pagesize'', PInt max_comments)]"

text \<open>An attribute read with \<open>Element.get\<close>, as a value: the string, or \<open>None\<close>.\<close>

definition attr_value :: "element \<Rightarrow> string \<Rightarrow> pyval" where
  "attr_value e key = (case elem_get e key of None \<Rightarrow> PNone | Some s \<Rightarrow> PStr s)"

definition comment_record :: "element \<Rightarrow> (string \<times> pyval) list" where
  "comment_record c =
     [(''username'', attr_value c ''username''),
      (''rating'', attr_value c ''rating''),
      (''value'', attr_value c ''value'')]"

definition get_game_comments_try ::
  "client \<Rightarrow> env \<Rightarrow> int \<Rightarrow> int \<Rightarrow> world
     \<Rightarrow> (error + (string \<times> pyval) list list) \<times> world" where
  "get_game_comments_try cl ev game_id max_comments w =
     (case safe_api_call cl ev (thing_url cl) (comments_params game_id max_comments) w of
        (Inl e, w1) \<Rightarrow> (Inl e, w1)
      | (Inr xml_data, w1) \<Rightarrow>
          (case parse_xml ev xml_data w1 of
             (Inl e, w2) \<Rightarrow> (Inl e, w2)
           | (Inr root, w2) \<Rightarrow>
               (Inr (map comment_record (elem_findall_descendants root ''comment'')), w2)))"

definition get_game_comments ::
  "client \<Rightarrow> env \<Rightarrow> int \<Rightarrow> int \<Rightarrow> world
     \<Rightarrow> (error + (string \<times> pyval) list list) \<times> world" where
  "get_game_comments cl ev game_id max_comments w =
     (case get_game_comments_try cl ev game_id max_comments w of
        (Inr r, w1) \<Rightarrow> (Inr r, w1)
      | (Inl e, w1) \<Rightarrow> (Inr [], logger ERROR (FailedComments game_id e) w1))"

section \<open>Dictionaries\<close>

text \<open>
  A \<open>dict\<close> with string keys is a list of key-value pairs in insertion order, with
  distinct keys. \<open>dict_set d k v\<close> is \<open>d[k] = v\<close>: the value of a key that is present
  is replaced in place, a new key goes to the end.
\<close>

fun dict_set :: "(string \<times> 'v) list \<Rightarrow> string \<Rightarrow> 'v \<Rightarrow> (string \<times> 'v) list" where
  "dict_set [] k v = [(k, v)]"
| "dict_set ((k', v') # d) k v =
     (if k' = k then (k, v) # d else (k', v') # dict_set d k v)"

type_synonym comment = "(string \<times> pyval) list"

type_synonym dataset = "(string \<times> comment list) list"

text \<open>A dataset and a list of comments as the values \<open>json.dump\<close> receives.\<close>

definition comments_value :: "comment list \<Rightarrow> pyval" where
  "comments_value comments = PList (map PDict comments)"

definition dataset_value :: "dataset \<Rightarrow> pyval" where
  "dataset_value d = PDict (map (\<lambda>(game, comments). (game, comments_value comments)) d)"

section \<open>DataRetriever\<close>

text \<open>
  The storage the retriever works on. \<open>write_result path content\<close> is the outcome of
  opening \<open>path\<close> with \<open>open(path, "w", encoding="utf-8")\<close> and writing \<open>content\<close> to
  it inside the \<open>with\<close>: the file holds the content; or \<open>open\<close> raised and the file
  is as before; or the writing raised after the file was truncated, and the file holds
  some other text. \<open>open_r path\<close> is the exception that \<open>open(path, "r")\<close> and the
  reading raise on a file that exists, if they raise one; on a path without a file
  \<open>open\<close> raises \<open>FileNotFoundError\<close>. \<open>json_dumps v\<close> is the text that
  \<open>json.dump(v, f, ensure_ascii=False, indent=2)\<close> writes and \<open>json_loads\<close> is
  \<open>json.load\<close> on the text of a file.
\<close>

datatype write_outcome = Written | OpenFailed error | WriteFailed error string

record storage =
  write_result :: "string \<Rightarrow> string \<Rightarrow> write_outcome"
  open_r :: "string \<Rightarrow> error option"
  json_dumps :: "pyval \<Rightarrow> string"
  json_loads :: "string \<Rightarrow> error + pyval"

record retriever =
  output_dir :: string
  download_path :: "string option"
  bgg_client :: client

definition DataRetriever :: "string \<Rightarrow> string option \<Rightarrow> retriever" where
  "DataRetriever out dl =
     \<lparr>output_dir = out, download_path = dl, bgg_client = BGGDataClient 3 2\<rparr>"

text \<open>\<open>os.path.join(a, b)\<close> for a relative \<open>b\<close>.\<close>

definition path_join :: "string \<Rightarrow> string \<Rightarrow> string" where
  "path_join a b = (if a = [] \<or> last a = CHR ''/'' then a @ b else a @ ''/'' @ b)"

definition game_filename :: "retriever \<Rightarrow> string \<Rightarrow> string" where
  "game_filename r game_name =
     path_join (output_dir r) (sanitize_filename game_name @ ''_comments.json'')"

definition full_dataset_path :: "retriever \<Rightarrow> string" where
  "full_dataset_path r = path_join (output_dir r) ''full_comments_dataset.json''"

definition write_file :: "string \<Rightarrow> string \<Rightarrow> world \<Rightarrow> world" where
  "write_file path content w =
     w\<lparr>files := (files w)(path \<mapsto> content),
       timeline := timeline w @ [WRITE path content]\<rparr>"

text \<open>
  The \<open>with open(path, "w") \<dots>: json.dump(\<dots>)\<close> of both save methods: the world
  after it, and the exception it raised, if any.
\<close>

definition dump_to_file :: "storage \<Rightarrow> string \<Rightarrow> pyval \<Rightarrow> world \<Rightarrow> error option \<times> world" where
  "dump_to_file st path v w =
     (case write_result st path (json_dumps st v) of
        Written \<Rightarrow> (None, write_file path (json_dumps st v) w)
      | OpenFailed e \<Rightarrow> (Some e, w)
      | WriteFailed e partial \<Rightarrow> (Some e, write_file path partial w))"

text \<open>\<open>_save_game_comments\<close>: \<open>except IOError\<close> logs and goes on.\<close>

definition save_game_comments ::
  "retriever \<Rightarrow> storage \<Rightarrow> string \<Rightarrow> comment list \<Rightarrow> world \<Rightarrow> (error + unit) \<times> world" where
  "save_game_comments r st game_name comments w =
     (case dump_to_file st (game_filename r game_name) (comments_value comments) w of
        (None, w1) \<Rightarrow>
          (Inr (), logger INFO (SavedComments game_name (game_filename r game_name)) w1)
      | (Some e, w1) \<Rightarrow>
          if is_IOError e then (Inr (), logger ERROR (FailedSaveComments game_name e) w1)
          else (Inl e, w1))"

text \<open>\<open>_save_full_dataset\<close>.\<close>

definition save_full_dataset ::
  "retriever \<Rightarrow> storage \<Rightarrow> dataset \<Rightarrow> world \<Rightarrow> (error + unit) \<times> world" where
  "save_full_dataset r st d w =
     (case dump_to_file st (full_dataset_path r) (dataset_value d) w of
        (None, w1) \<Rightarrow> (Inr (), logger INFO (SavedFullDataset (full_dataset_path r)) w1)
      | (Some e, w1) \<Rightarrow>
          if is_IOError e then (Inr (), logger ERROR (FailedSaveFullDataset e) w1)
          else (Inl e, w1))"





text \<open>
  One turn of the loop of \<open>retrieve_comments\<close>: the body of the \<open>try\<close>, and
  \<open>except Exception\<close>, which logs and goes on to the next name.
\<close>

definition retrieve_one ::
  "retriever \<Rightarrow> env \<Rightarrow> storage \<Rightarrow> int \<Rightarrow> string \<Rightarrow> dataset \<Rightarrow> world \<Rightarrow> dataset \<times> world" where
  "retrieve_one r ev st max_comments game_name all_comments w =
     (case get_game_id (bgg_client r) ev game_name w of
        (Inl e, w1) \<Rightarrow> (all_comments, logger ERROR (ErrorRetrieving game_name e) w1)
      | (Inr None, w1) \<Rightarrow> (all_comments, logger WARNING (GameNotFound game_name) w1)
      | (Inr (Some game_id), w1) \<Rightarrow>
          (case get_game_comments (bgg_client r) ev game_id max_comments w1 of
             (Inl e, w2) \<Rightarrow> (all_comments, logger ERROR (ErrorRetrieving game_name e) w2)
           | (Inr comments, w2) \<Rightarrow>
               (let all_comments' = dict_set all_comments game_name comments;
                    w3 = logger INFO (RetrievedComments (length comments) game_name) w2
                in case save_game_comments r st game_name comments w3 of
                     (Inl e, w4) \<Rightarrow>
                       (all_comments', logger ERROR (ErrorRetrieving game_name e) w4)
                   | (Inr u, w4) \<Rightarrow> (all_comments', w4))))"

fun retrieve_loop ::
  "retriever \<Rightarrow> env \<Rightarrow> storage \<Rightarrow> int \<Rightarrow> string list \<Rightarrow> dataset \<Rightarrow> world \<Rightarrow> dataset \<times> world" where
  "retrieve_loop r ev st max_comments [] all_comments w = (all_comments, w)"
| "retrieve_loop r ev st max_comments (game_name # games) all_comments w =
     (case retrieve_one r ev st max_comments game_name all_comments w of
        (all_comments', w') \<Rightarrow> retrieve_loop r ev st max_comments games all_comments' w')"

definition retrieve_comments ::
  "retriever \<Rightarrow> env \<Rightarrow> storage \<Rightarrow> string list \<Rightarrow> int \<Rightarrow> world \<Rightarrow> (error + dataset) \<times> world" where
  "retrieve_comments r ev st games max_comments w =
     (case retrieve_loop r ev st max_comments games [] w of
        (all_comments, w1) \<Rightarrow>
          (case save_full_dataset r st all_comments w1 of
             (Inl e, w2) \<Rightarrow> (Inl e, w2)
           | (Inr u, w2) \<Rightarrow> (Inr all_comments, w2)))"

text \<open>
  Notions for the properties of \<open>retrieve_comments\<close>. \<open>world_before \<dots> games w i\<close> is
  the world in which the loop, started in \<open>w\<close>, takes up the name at index \<open>i\<close>;
  \<open>lookup_succeeds \<dots> games w i\<close> says that \<open>get_game_id\<close>, called there for that
  name, returns an id; \<open>first_occurrences\<close> drops from a list every element that
  occurred before; \<open>written\<close> is the writes of a timeline, in order.
\<close>

fun written :: "action list \<Rightarrow> (string \<times> string) list" where
  "written [] = []"
| "written (WRITE path content # as) = (path, content) # written as"
| "written (a # as) = written as"

definition world_before ::
  "retriever \<Rightarrow> env \<Rightarrow> storage \<Rightarrow> int \<Rightarrow> string list \<Rightarrow> world \<Rightarrow> nat \<Rightarrow> world" where
  "world_before r ev st max_comments games w i =
     snd (retrieve_loop r ev st max_comments (take i games) [] w)"

definition lookup_succeeds ::
  "retriever \<Rightarrow> env \<Rightarrow> storage \<Rightarrow> int \<Rightarrow> string list \<Rightarrow> world \<Rightarrow> nat \<Rightarrow> bool" where
  "lookup_succeeds r ev st max_comments games w i =
     (case fst (get_game_id (bgg_client r) ev (games ! i)
                  (world_before r ev st max_comments games w i)) of
        Inr (Some game_id) \<Rightarrow> True
      | _ \<Rightarrow> False)"

definition first_occurrences :: "'a list \<Rightarrow> 'a list" where
  "first_occurrences xs = rev (remdups (rev xs))"

section \<open>An example run\<close>

text \<open>
  A world in which nothing has happened yet, and surroundings for the examples: the
  first GET of the process times out; after that the search for \<open>Catan\<close> finds one
  item, the search for \<open>Broken\<close> returns a truncated document, and every other search
  finds nothing; the thing with id 13 has two comments, the thing with id 999 is a
  truncated document. \<open>example_fromstring\<close> parses these documents and no other;
  \<open>example_int\<close> reads a plain string of ASCII digits.
\<close>

definition world0 :: world where
  "world0 = \<lparr>gets = 0, sleeps = [], timeline = [], logs = [], files = (\<lambda>p. None)\<rparr>"

definition catan_search :: element where
  "catan_search =
     Element ''items'' [(''total'', ''1'')] None
       [Element ''item'' [(''type'', ''boardgame''), (''id'', ''13'')] None
          [Element ''name'' [(''type'', ''primary''), (''value'', ''CATAN'')] None [],
           Element ''yearpublished'' [(''value'', ''1995'')] None []]]"

definition empty_search :: element where
  "empty_search = Element ''items'' [(''total'', ''0'')] None []"

definition catan_thing :: element where
  "catan_thing =
     Element ''items'' [] None
       [Element ''item'' [(''type'', ''boardgame''), (''id'', ''13'')] None
          [Element ''name'' [(''type'', ''primary''), (''value'', ''CATAN'')] None [],
           Element ''comments'' [(''page'', ''1'')] None
             [Element ''comment''
                [(''username'', ''ann''), (''rating'', ''8''),
                 (''value'', ''Catan IS Great!! (1995)'')] None [],
              Element ''comment'' [(''username'', ''bob''), (''rating'', ''N/A'')] None []]]]"

definition example_fromstring :: "string \<Rightarrow> error + element" where
  "example_fromstring s =
     (if s = ''<catan search>'' then Inr catan_search
      else if s = ''<empty search>'' then Inr empty_search
      else if s = ''<catan thing>'' then Inr catan_thing
      else Inl (ParseError ''unclosed token: line 1, column 7''))"

definition digit_value :: "char \<Rightarrow> nat option" where
  "digit_value c =
     (let n = (of_char c :: nat) in if 48 \<le> n \<and> n \<le> 57 then Some (n - 48) else None)"

fun decimal_value :: "nat \<Rightarrow> string \<Rightarrow> nat option" where
  "decimal_value acc [] = Some acc"
| "decimal_value acc (c # cs) =
     (case digit_value c of None \<Rightarrow> None | Some d \<Rightarrow> decimal_value (10 * acc + d) cs)"

definition example_int :: "string \<Rightarrow> error + int" where
  "example_int s =
     (if s = [] then Inl ValueError
      else case decimal_value 0 s of None \<Rightarrow> Inl ValueError | Some n \<Rightarrow> Inr (int n))"

definition ok :: "string \<Rightarrow> error + response" where
  "ok body = Inr \<lparr>status_code = 200, response_text = body\<rparr>"

definition example_http :: "nat \<Rightarrow> string \<Rightarrow> (string \<times> pyval) list \<Rightarrow> error + response" where
  "example_http k url params =
     (if k = 0 then Inl (RequestException ''Read timed out.'')
      else if url = ''https://boardgamegeek.com/xmlapi2/search'' then
        (if map_of params ''query'' = Some (PStr ''Catan'') then ok ''<catan search>''
         else if map_of params ''query'' = Some (PStr ''Broken'') then ok ''<items><item''
         else ok ''<empty search>'')
      else if map_of params ''id'' = Some (PInt 13) then ok ''<catan thing>''
      else ok ''<items><item'')"

definition example_env :: env where
  "example_env =
     \<lparr>http_get = example_http, fromstring = example_fromstring, int_of_str = example_int\<rparr>"

text \<open>
  Surroundings in which the first GET times out and every later one is answered with
  the status 503, and surroundings in which every GET times out.
\<close>

definition overloaded_env :: env where
  "overloaded_env =
     \<lparr>http_get = (\<lambda>k url params.
        if k = 0 then Inl (RequestException ''Read timed out.'')
        else Inr \<lparr>status_code = 503, response_text = ''Service Unavailable''\<rparr>),
      fromstring = example_fromstring, int_of_str = example_int\<rparr>"

definition unreachable_env :: env where
  "unreachable_env =
     \<lparr>http_get = (\<lambda>k url params. Inl (RequestException ''Read timed out.'')),
      fromstring = example_fromstring, int_of_str = example_int\<rparr>"

section \<open>A JSON encoder and decoder\<close>

text \<open>
  A model of \<open>json.dump(v, f, ensure_ascii=False, indent=2)\<close> and of \<open>json.load\<close> on
  the values above, for the storage of the examples. Only the quotation mark, the
  backslash and the control characters are escaped in a string; a nested level is
  indented by two more spaces; an empty list is \<open>[]\<close> and an empty dict \<open>{}\<close>.
\<close>

definition hex_digit :: "nat \<Rightarrow> char" where
  "hex_digit n = (if n < 10 then char_of (48 + n) else char_of (87 + n))"

definition escape_char :: "char \<Rightarrow> string" where
  "escape_char c =
     (let n = (of_char c :: nat) in
      if n = 34 then [CHR 0x5C, CHR 0x22]
      else if n = 92 then [CHR 0x5C, CHR 0x5C]
      else if n = 10 then [CHR 0x5C, CHR ''n'']
      else if n = 13 then [CHR 0x5C, CHR ''r'']
      else if n = 9 then [CHR 0x5C, CHR ''t'']
      else if n = 8 then [CHR 0x5C, CHR ''b'']
      else if n = 12 then [CHR 0x5C, CHR ''f'']
      else if n < 32 then
        [CHR 0x5C, CHR ''u'', CHR ''0'', CHR ''0'', hex_digit (n div 16), hex_digit (n mod 16)]
      else [c])"

definition encode_string :: "string \<Rightarrow> string" where
  "encode_string s = [CHR 0x22] @ concat (map escape_char s) @ [CHR 0x22]"

fun decimal :: "nat \<Rightarrow> string" where
  "decimal n = (if n < 10 then [char_of (48 + n)] else decimal (n div 10) @ [char_of (48 + n mod 10)])"

definition encode_int :: "int \<Rightarrow> string" where
  "encode_int i = (if i < 0 then CHR ''-'' # decimal (nat (- i)) else decimal (nat i))"

definition newline_indent :: "nat \<Rightarrow> string" where
  "newline_indent lvl = CHR 0x0A # replicate (2 * lvl) CHR '' ''"

fun encode :: "nat \<Rightarrow> pyval \<Rightarrow> string" where
  "encode lvl PNone = ''null''"
| "encode lvl (PStr s) = encode_string s"
| "encode lvl (PInt i) = encode_int i"
| "encode lvl (PList vs) =
     (if vs = [] then ''[]''
      else ''['' @ newline_indent (Suc lvl)
        @ str_join ('','' @ newline_indent (Suc lvl)) (map (encode (Suc lvl)) vs)
        @ newline_indent lvl @ '']'')"
| "encode lvl (PDict kvs) =
     (if kvs = [] then ''{}''
      else ''{'' @ newline_indent (Suc lvl)
        @ str_join ('','' @ newline_indent (Suc lvl))
            (map (\<lambda>(k, v). encode_string k @ '': '' @ encode (Suc lvl) v) kvs)
        @ newline_indent lvl @ ''}'')"

definition example_json_dumps :: "pyval \<Rightarrow> string" where
  "example_json_dumps v = encode 0 v"

definition json_space :: "char \<Rightarrow> bool" where
  "json_space c = (c = CHR '' '' \<or> c = CHR 0x09 \<or> c = CHR 0x0A \<or> c = CHR 0x0D)"

definition skip_space :: "string \<Rightarrow> string" where
  "skip_space s = dropWhile json_space s"

definition hex_value :: "char \<Rightarrow> nat option" where
  "hex_value c =
     (let n = (of_char c :: nat) in
      if 48 \<le> n \<and> n \<le> 57 then Some (n - 48)
      else if 97 \<le> n \<and> n \<le> 102 then Some (n - 87)
      else if 65 \<le> n \<and> n \<le> 70 then Some (n - 55)
      else None)"

text \<open>
  The characters of a string up to its closing quotation mark, and the rest of the
  text. A \<open>\u\<close> escape is read when it names a code point below U+0100.
\<close>

fun decode_chars :: "string \<Rightarrow> string \<Rightarrow> (string \<times> string) option" where
  "decode_chars acc [] = None"
| "decode_chars acc (c # cs) =
     (if c = CHR 0x22 then Some (acc, cs)
      else if c = CHR 0x5C then
        (case cs of
           [] \<Rightarrow> None
         | e # rest \<Rightarrow>
             if e = CHR 0x22 \<or> e = CHR 0x5C \<or> e = CHR ''/'' then decode_chars (acc @ [e]) rest
             else if e = CHR ''n'' then decode_chars (acc @ [CHR 0x0A]) rest
             else if e = CHR ''r'' then decode_chars (acc @ [CHR 0x0D]) rest
             else if e = CHR ''t'' then decode_chars (acc @ [CHR 0x09]) rest
             else if e = CHR ''b'' then decode_chars (acc @ [CHR 0x08]) rest
             else if e = CHR ''f'' then decode_chars (acc @ [CHR 0x0C]) rest
             else if e = CHR ''u'' then
               (case rest of
                  a # b # c' # d # rest' \<Rightarrow>
                    (case (hex_value a, hex_value b, hex_value c', hex_value d) of
                       (Some 0, Some 0, Some h, Some l) \<Rightarrow>
                         decode_chars (acc @ [char_of (16 * h + l)]) rest'
                     | _ \<Rightarrow> None)
                | _ \<Rightarrow> None)
             else None)
      else if (of_char c :: nat) < 32 then None
      else decode_chars (acc @ [c]) cs)"

fun decode_digits :: "nat \<Rightarrow> string \<Rightarrow> nat \<times> string" where
  "decode_digits acc [] = (acc, [])"
| "decode_digits acc (c # cs) =
     (case digit_value c of
        None \<Rightarrow> (acc, c # cs)
      | Some d \<Rightarrow> decode_digits (10 * acc + d) cs)"

definition decode_nat :: "string \<Rightarrow> (nat \<times> string) option" where
  "decode_nat s =
     (case s of
        [] \<Rightarrow> None
      | c # cs \<Rightarrow>
          if digit_value c = None then None
          else if c = CHR ''0'' then Some (0, cs)
          else Some (decode_digits 0 s))"

text \<open>
  \<open>decode_value n s\<close> reads one value at the head of \<open>s\<close>, \<open>decode_items\<close> the items
  of a list after its opening bracket and \<open>decode_members\<close> the members of a dict
  after its opening brace; \<open>n\<close> bounds the depth of the recursion.
\<close>

fun decode_value :: "nat \<Rightarrow> string \<Rightarrow> (pyval \<times> string) option"
  and decode_items :: "nat \<Rightarrow> pyval list \<Rightarrow> string \<Rightarrow> (pyval \<times> string) option"
  and decode_members :: "nat \<Rightarrow> (string \<times> pyval) list \<Rightarrow> string \<Rightarrow> (pyval \<times> string) option"
  where
  "decode_value 0 s = None"
| "decode_value (Suc n) s =
     (case s of
        [] \<Rightarrow> None
      | c # cs \<Rightarrow>
          if c = CHR 0x22 then
            (case decode_chars [] cs of
               None \<Rightarrow> None
             | Some (str, rest) \<Rightarrow> Some (PStr str, rest))
          else if c = CHR ''['' then
            (case skip_space cs of
               [] \<Rightarrow> None
             | d # ds \<Rightarrow> if d = CHR '']'' then Some (PList [], ds) else decode_items n [] (d # ds))
          else if c = CHR ''{'' then
            (case skip_space cs of
               [] \<Rightarrow> None
             | d # ds \<Rightarrow> if d = CHR ''}'' then Some (PDict [], ds) else decode_members n [] (d # ds))
          else if c = CHR ''-'' then
            (case decode_nat cs of
               None \<Rightarrow> None
             | Some (m, rest) \<Rightarrow> Some (PInt (- int m), rest))
          else if take 4 s = ''null'' then Some (PNone, drop 4 s)
          else
            (case decode_nat s of
               None \<Rightarrow> None
             | Some (m, rest) \<Rightarrow> Some (PInt (int m), rest)))"
| "decode_items 0 acc s = None"
| "decode_items (Suc n) acc s =
     (case decode_value n s of
        None \<Rightarrow> None
      | Some (v, rest) \<Rightarrow>
          (case skip_space rest of
             [] \<Rightarrow> None
           | c # cs \<Rightarrow>
               if c = CHR '','' then decode_items n (acc @ [v]) (skip_space cs)
               else if c = CHR '']'' then Some (PList (acc @ [v]), cs)
               else None))"
| "decode_members 0 acc s = None"
| "decode_members (Suc n) acc s =
     (case s of
        [] \<Rightarrow> None
      | q # s' \<Rightarrow>
          if q \<noteq> CHR 0x22 then None
          else
            (case decode_chars [] s' of
               None \<Rightarrow> None
             | Some (k, rest) \<Rightarrow>
                 (case skip_space rest of
                    [] \<Rightarrow> None
                  | c # cs \<Rightarrow>
                      if c \<noteq> CHR '':'' then None
                      else
                        (case decode_value n (skip_space cs) of
                           None \<Rightarrow> None
                         | Some (v, rest') \<Rightarrow>
                             (case skip_space rest' of
                                [] \<Rightarrow> None
                              | d # ds \<Rightarrow>
                                  if d = CHR '','' then
                                    decode_members n (dict_set acc k v) (skip_space ds)
                                  else if d = CHR ''}'' then Some (PDict (dict_set acc k v), ds)
                                  else None)))))"

definition example_json_loads :: "string \<Rightarrow> error + pyval" where
  "example_json_loads s =
     (case decode_value (Suc (length s)) (skip_space s) of
        None \<Rightarrow> Inl JSONDecodeError
      | Some (v, rest) \<Rightarrow> if skip_space rest = [] then Inr v else Inl JSONDecodeError)"

definition example_storage :: storage where
  "example_storage =
     \<lparr>write_result = (\<lambda>path content. Written), open_r = (\<lambda>path. None),
      json_dumps = example_json_dumps, json_loads = example_json_loads\<rparr>"

section \<open>DataPreprocessor\<close>

text \<open>
  The parts of NLTK the preprocessor calls: \<open>word_tokenize\<close>, and
  \<open>stopwords.words\<close>; each returns a list of strings or raises.
\<close>

record nltk =
  word_tokenize :: "string \<Rightarrow> error + string list"
  stopwords_words :: "string \<Rightarrow> error + string list"

text \<open>The body of the \<open>try\<close> of \<open>tokenize\<close>.\<close>

definition tokenize_try :: "nltk \<Rightarrow> string \<Rightarrow> error + string list" where
  "tokenize_try nl text =
     (case word_tokenize nl text of
        Inl e \<Rightarrow> Inl e
      | Inr tokens \<Rightarrow>
          (case stopwords_words nl ''english'' of
             Inl e \<Rightarrow> Inl e
           | Inr stop_words \<Rightarrow> Inr (filter (\<lambda>token. token \<notin> set stop_words) tokens)))"

text \<open>\<open>tokenize\<close>: \<open>except Exception\<close> logs and returns the empty list.\<close>

definition tokenize :: "nltk \<Rightarrow> string \<Rightarrow> world \<Rightarrow> string list \<times> world" where
  "tokenize nl text w =
     (case tokenize_try nl text of
        Inr tokens \<Rightarrow> (tokens, w)
      | Inl e \<Rightarrow> ([], logger ERROR (TokenizationError e) w))"


text \<open>\<open>d[key]\<close> raises \<open>KeyError\<close> when the key is missing.\<close>

definition dict_get :: "(string \<times> 'v) list \<Rightarrow> string \<Rightarrow> error + 'v" where
  "dict_get d key = (case map_of d key of None \<Rightarrow> Inl (KeyError key) | Some v \<Rightarrow> Inr v)"







text \<open>
  NLTK for the examples: the tokens are the maximal runs of characters that are not
  white space, and four stop words.
\<close>

fun split_words :: "string \<Rightarrow> string \<Rightarrow> string list" where
  "split_words word [] = (if word = [] then [] else [word])"
| "split_words word (c # cs) =
     (if py_isspace c then (if word = [] then [] else [word]) @ split_words [] cs
      else split_words (word @ [c]) cs)"

definition example_nltk :: nltk where
  "example_nltk =
     \<lparr>word_tokenize = (\<lambda>text. Inr (split_words [] text)),
      stopwords_words = (\<lambda>language. Inr [''the'', ''is'', ''a'', ''of''])\<rparr>"

section \<open>preprocess\_dataset on a store of objects\<close>

text \<open>
  Whether a call changes its argument depends on which objects it writes to. Here
  the dicts and lists are objects in a store: a value is \<open>None\<close>, a string, an
  integer, or the address of an object; the store is the list of the objects
  allocated so far, the address of an object is its index, and a new object goes to
  the end.
\<close>

datatype hval = HNone | HStr string | HInt int | HRef nat

datatype hobj = HDict "(string \<times> hval) list" | HList "hval list"

type_synonym store = "hobj list"

definition store_new :: "hobj \<Rightarrow> store \<Rightarrow> nat \<times> store" where
  "store_new obj h = (length h, h @ [obj])"

text \<open>\<open>d[key] = v\<close> and \<open>l.append(v)\<close> on the object at an address.\<close>

definition store_dict_set :: "nat \<Rightarrow> string \<Rightarrow> hval \<Rightarrow> store \<Rightarrow> store" where
  "store_dict_set a key v h =
     (case h ! a of HDict kvs \<Rightarrow> h[a := HDict (dict_set kvs key v)] | HList xs \<Rightarrow> h)"

definition store_list_append :: "nat \<Rightarrow> hval \<Rightarrow> store \<Rightarrow> store" where
  "store_list_append a v h =
     (case h ! a of HList xs \<Rightarrow> h[a := HList (xs @ [v])] | HDict kvs \<Rightarrow> h)"

text \<open>
  The values a \<open>for\<close> loop over a value goes through: the items of a list, the keys
  of a dict, the characters of a string; \<open>None\<close> and an integer are not iterable.
  An address beyond the store does not occur.
\<close>

definition iter_values :: "hval \<Rightarrow> store \<Rightarrow> error + hval list" where
  "iter_values v h =
     (case v of
        HRef a \<Rightarrow>
          (if a < length h then
             (case h ! a of
                HList xs \<Rightarrow> Inr xs
              | HDict kvs \<Rightarrow> Inr (map (\<lambda>(key, x). HStr key) kvs))
           else Inl (OtherException ''no object''))
      | HStr s \<Rightarrow> Inr (map (\<lambda>c. HStr [c]) s)
      | _ \<Rightarrow> Inl TypeError)"

definition clean_text_of_hval :: "hval \<Rightarrow> error + string" where
  "clean_text_of_hval v = (case v of HStr s \<Rightarrow> Inr (clean_text s) | _ \<Rightarrow> Inl AttributeError)"

text \<open>
  The body of the inner loop, up to the \<open>append\<close>. \<open>comment.copy()\<close> makes a new
  object with the entries of the comment; on a list it makes a new list, and the
  subscript \<open>comment['value']\<close> then raises \<open>TypeError\<close>; \<open>None\<close>, a string and an
  integer have no \<open>copy\<close>. The two assignments write to the copy; \<open>tokenize\<close> returns
  a new list.
\<close>

definition s_preprocess_comment ::
  "nltk \<Rightarrow> hval \<Rightarrow> store \<Rightarrow> world \<Rightarrow> (error + hval) \<times> store \<times> world" where
  "s_preprocess_comment nl comment h w =
     (case comment of
        HRef a \<Rightarrow>
          (if a < length h then
             (case h ! a of
                HDict kvs \<Rightarrow>
                  (case store_new (HDict kvs) h of
                     (preprocessed_comment, h1) \<Rightarrow>
                       (case dict_get kvs ''value'' of
                          Inl e \<Rightarrow> (Inl e, h1, w)
                        | Inr v \<Rightarrow>
                            (case clean_text_of_hval v of
                               Inl e \<Rightarrow> (Inl e, h1, w)
                             | Inr cleaned \<Rightarrow>
                                 (case tokenize nl cleaned w of
                                    (tokens, w1) \<Rightarrow>
                                      (case store_new (HList (map HStr tokens))
                                              (store_dict_set preprocessed_comment
                                                 ''clean_text'' (HStr cleaned) h1) of
                                         (token_list, h2) \<Rightarrow>
                                           (Inr (HRef preprocessed_comment),
                                            store_dict_set preprocessed_comment ''tokens''
                                              (HRef token_list) h2, w1))))))
              | HList xs \<Rightarrow>
                  (case store_new (HList xs) h of
                     (preprocessed_comment, h1) \<Rightarrow> (Inl TypeError, h1, w)))
           else (Inl (OtherException ''no object''), h, w))
      | _ \<Rightarrow> (Inl AttributeError, h, w))"

text \<open>
  The inner loop: \<open>preprocessed_comments\<close> is the address of the list that the loop
  appends to.
\<close>

fun s_preprocess_comments ::
  "nltk \<Rightarrow> hval list \<Rightarrow> nat \<Rightarrow> store \<Rightarrow> world \<Rightarrow> error option \<times> store \<times> world" where
  "s_preprocess_comments nl [] preprocessed_comments h w = (None, h, w)"
| "s_preprocess_comments nl (comment # comments) preprocessed_comments h w =
     (case s_preprocess_comment nl comment h w of
        (Inl e, h1, w1) \<Rightarrow> (Some e, h1, w1)
      | (Inr preprocessed_comment, h1, w1) \<Rightarrow>
          s_preprocess_comments nl comments preprocessed_comments
            (store_list_append preprocessed_comments preprocessed_comment h1) w1)"

text \<open>
  The outer loop over the items of the dataset: \<open>preprocessed_dataset\<close> is the
  address of the dict that the loop fills.
\<close>

fun s_preprocess_games ::
  "nltk \<Rightarrow> (string \<times> hval) list \<Rightarrow> nat \<Rightarrow> store \<Rightarrow> world
     \<Rightarrow> error option \<times> store \<times> world" where
  "s_preprocess_games nl [] preprocessed_dataset h w = (None, h, w)"
| "s_preprocess_games nl ((game, comments) # items) preprocessed_dataset h w =
     (case store_new (HList []) h of
        (preprocessed_comments, h1) \<Rightarrow>
          (case iter_values comments h1 of
             Inl e \<Rightarrow> (Some e, h1, w)
           | Inr elems \<Rightarrow>
               (case s_preprocess_comments nl elems preprocessed_comments h1 w of
                  (Some e, h2, w2) \<Rightarrow> (Some e, h2, w2)
                | (None, h2, w2) \<Rightarrow>
                    s_preprocess_games nl items preprocessed_dataset
                      (store_dict_set preprocessed_dataset game
                         (HRef preprocessed_comments) h2) w2)))"

text \<open>
  \<open>preprocess_dataset\<close>: the new dict is made first; \<open>dataset.items()\<close> needs a dict.
\<close>

definition s_preprocess_dataset ::
  "nltk \<Rightarrow> hval \<Rightarrow> store \<Rightarrow> world \<Rightarrow> (error + hval) \<times> store \<times> world" where
  "s_preprocess_dataset nl dataset h w =
     (case store_new (HDict []) h of
        (preprocessed_dataset, h1) \<Rightarrow>
          (case dataset of
             HRef a \<Rightarrow>
               (if a < length h then
                  (case h ! a of
                     HDict items \<Rightarrow>
                       (case s_preprocess_games nl items preprocessed_dataset h1 w of
                          (None, h2, w2) \<Rightarrow> (Inr (HRef preprocessed_dataset), h2, w2)
                        | (Some e, h2, w2) \<Rightarrow> (Inl e, h2, w2))
                   | HList xs \<Rightarrow> (Inl AttributeError, h1, w))
                else (Inl (OtherException ''no object''), h1, w))
           | _ \<Rightarrow> (Inl AttributeError, h1, w)))"

text \<open>
  A store for the examples: the dataset at address 0 has one game, whose list of
  comments at address 1 holds the comment at address 2.
\<close>

definition example_store :: store where
  "example_store =
     [HDict [(''Catan'', HRef 1)],
      HList [HRef 2],
      HDict [(''username'', HStr ''ann''), (''rating'', HStr ''8''),
             (''value'', HStr ''Catan IS Great!! (1995)'')]]"

section \<open>Properties of the string functions\<close>

lemma re_sub_class_empty: "re_sub_class cls [] s = filter (\<lambda>c. \<not> cls c) s"
  by (induction s) auto

lemma clean_text_filter:
  "clean_text s =
     filter (\<lambda>c. ascii_lowercase c \<or> ascii_uppercase c \<or> py_isspace c) (map lower_char s)"
  by (simp add: clean_text_def str_lower_def re_sub_class_empty special_or_number_def)

lemma lower_char_not_upper: "\<not> ascii_uppercase (lower_char c)"
proof -
  let ?n = "of_char c :: nat"
  show ?thesis
  proof (cases "(65 \<le> ?n \<and> ?n \<le> 90) \<or> (192 \<le> ?n \<and> ?n \<le> 214) \<or> (216 \<le> ?n \<and> ?n \<le> 222)")
    case True
    then have "?n + 32 < 256" by auto
    then have "(of_char (char_of (?n + 32)) :: nat) = ?n + 32" by simp
    with True show ?thesis
      by (auto simp: lower_char_def ascii_uppercase_def Let_def)
  next
    case False
    then show ?thesis
      by (auto simp: lower_char_def ascii_uppercase_def Let_def)
  qed
qed

lemma lower_char_fixed:
  "ascii_lowercase c \<or> py_isspace c \<Longrightarrow> lower_char c = c"
  by (auto simp: lower_char_def ascii_lowercase_def py_isspace_def Let_def)

lemma clean_text_chars:
  "c \<in> set (clean_text s) \<Longrightarrow> ascii_lowercase c \<or> py_isspace c"
  using lower_char_not_upper by (auto simp: clean_text_filter)

lemma clean_text_fixed:
  assumes "\<forall>c \<in> set t. ascii_lowercase c \<or> py_isspace c"
  shows "clean_text t = t"
proof -
  have "map lower_char t = t"
    using assms by (induction t) (auto simp: lower_char_fixed)
  moreover have "filter (\<lambda>c. ascii_lowercase c \<or> ascii_uppercase c \<or> py_isspace c) t = t"
    using assms by (induction t) auto
  ultimately show ?thesis by (simp add: clean_text_filter)
qed

lemma str_join_singletons: "str_join [] (map f s) = concat (map f s)"
  by (induction s rule: induct_list012) auto

lemma sanitize_filename_map:
  "sanitize_filename name =
     map (\<lambda>c. if py_isalnum c \<or> c = CHR ''.'' \<or> c = CHR ''_'' \<or> c = CHR ''-''
               then c else CHR ''_'') name"
  unfolding sanitize_filename_def str_join_singletons
  by (induction name) auto

section \<open>Claims on the string functions\<close>

text \<open>
  C6, amended. \<open>clean_text\<close> is a total function on strings: it lowercases its input
  and then removes every character that is not an ASCII letter or white space, so its
  result holds lowercase ASCII letters and white space only. On
  \<open>Catan IS Great!! (1995)\<close> the result is \<open>catan is great\<close> followed by one space
  (the input has one space after the exclamation marks).
\<close>

theorem clean_text_spec:
  "clean_text s =
     filter (\<lambda>c. ascii_lowercase c \<or> ascii_uppercase c \<or> py_isspace c) (str_lower s)
   \<and> set (clean_text s) \<subseteq> {c. ascii_lowercase c \<or> py_isspace c}
   \<and> clean_text ''Catan IS Great!! (1995)'' = ''catan is great ''"
proof -
  have "clean_text ''Catan IS Great!! (1995)'' = ''catan is great ''"
    by code_simp
  moreover have "set (clean_text s) \<subseteq> {c. ascii_lowercase c \<or> py_isspace c}"
    using clean_text_chars by blast
  ultimately show ?thesis
    by (simp add: clean_text_filter str_lower_def)
qed

theorem clean_text_spec_witness:
  "clean_text ''A1 b!'' = ''a b''
   \<and> set (clean_text ''A1 b!'') \<subseteq> {c. ascii_lowercase c \<or> py_isspace c}"
proof -
  have h: "clean_text ''A1 b!'' = ''a b''" by code_simp
  from clean_text_spec [of "''A1 b!''"]
  have "set (clean_text ''A1 b!'') \<subseteq> {c. ascii_lowercase c \<or> py_isspace c}" by blast
  with h show ?thesis by blast
qed

text \<open>
  C6 as stated gives the result on \<open>Catan IS Great!! (1995)\<close> two trailing spaces;
  the function returns one.
\<close>

theorem clean_text_example_counterexample:
  "clean_text ''Catan IS Great!! (1995)'' \<noteq> ''catan is great  ''"
  by code_simp

text \<open>
  C8. \<open>_sanitize_filename\<close> maps every character that is neither alphanumeric nor one
  of \<open>.\<close>, \<open>_\<close>, \<open>-\<close> to \<open>_\<close> and keeps every other character; it is not injective:
  \<open>A/B\<close> and \<open>A B\<close> both give \<open>A_B\<close>.
\<close>

theorem sanitize_filename_spec:
  "sanitize_filename name =
     map (\<lambda>c. if py_isalnum c \<or> c = CHR ''.'' \<or> c = CHR ''_'' \<or> c = CHR ''-''
               then c else CHR ''_'') name
   \<and> sanitize_filename ''A/B'' = ''A_B''
   \<and> sanitize_filename ''A B'' = ''A_B''
   \<and> \<not> inj sanitize_filename"
proof -
  have a: "sanitize_filename ''A/B'' = ''A_B''" by code_simp
  have b: "sanitize_filename ''A B'' = ''A_B''" by code_simp
  have "''A/B'' \<noteq> ''A B''" by simp
  with a b have "\<not> inj sanitize_filename"
    by (metis injD)
  with a b show ?thesis
    using sanitize_filename_map by blast
qed

theorem sanitize_filename_spec_witness:
  "sanitize_filename ''On Mars: 2nd_ed.-x'' = ''On_Mars__2nd_ed.-x''"
proof -
  have "map (\<lambda>c. if py_isalnum c \<or> c = CHR ''.'' \<or> c = CHR ''_'' \<or> c = CHR ''-''
               then c else CHR ''_'') ''On Mars: 2nd_ed.-x'' = ''On_Mars__2nd_ed.-x''"
    by code_simp
  then show ?thesis using sanitize_filename_spec [of "''On Mars: 2nd_ed.-x''"] by simp
qed

text \<open>
  C9. \<open>clean_text\<close> is idempotent: its result holds lowercase ASCII letters and white
  space only, and on such a string lowercasing and the removal change nothing.
\<close>

theorem clean_text_idempotent:
  "clean_text (clean_text s) = clean_text s"
  by (rule clean_text_fixed) (simp add: clean_text_chars)

theorem clean_text_idempotent_witness:
  "clean_text (clean_text ''Zug um Zug 2!'') = ''zug um zug ''"
proof -
  have "clean_text ''Zug um Zug 2!'' = ''zug um zug ''" by code_simp
  then show ?thesis using clean_text_idempotent [of "''Zug um Zug 2!''"] by simp
qed

section \<open>Properties of the client\<close>

lemma get_fails_attempt:
  "get_fails ev k url params \<Longrightarrow>
   \<exists>e. http_attempt ev k url params = Inl e \<and> is_RequestException e"
  by (auto simp: get_fails_def http_attempt_def raise_for_status_def split: sum.splits)

lemma api_attempts_all_fail:
  assumes mr: "max_retries cl = int n" and rd: "0 \<le> retry_delay cl"
    and bound: "retry_delay cl * (int n - 1) \<le> max_sleep"
  shows "k < n \<Longrightarrow> gets w = g + k \<Longrightarrow>
     (\<forall>j. k \<le> j \<and> j < n \<longrightarrow> get_fails ev (g + j) url params) \<Longrightarrow>
     fst (api_attempts cl ev url params (map int [k..<n]) w)
       = map_sum id Some (http_attempt ev (g + n - 1) url params)
     \<and> gets (snd (api_attempts cl ev url params (map int [k..<n]) w)) = g + n
     \<and> sleeps (snd (api_attempts cl ev url params (map int [k..<n]) w))
         = sleeps w @ map (\<lambda>j. retry_delay cl * (int j + 1)) [k..<n - 1]
     \<and> timeline (snd (api_attempts cl ev url params (map int [k..<n]) w))
         = timeline w @ concat (map (\<lambda>j. GET (g + j) #
             (if Suc j < n then [SLEEP (retry_delay cl * int (Suc j))] else [])) [k..<n])"
proof (induction "n - k" arbitrary: k w)
  case 0
  then show ?case by simp
next
  case (Suc d)
  from Suc.prems(1,3) have "get_fails ev (g + k) url params" by simp
  then obtain e
    where e: "http_attempt ev (gets w) url params = Inl e" "is_RequestException e"
    using get_fails_attempt Suc.prems(2) by metis
  have l: "map int [k..<n] = int k # map int [Suc k..<n]"
    and l': "[k..<n] = k # [Suc k..<n]"
    using Suc.prems(1) by (simp_all add: upt_conv_Cons)
  define w2 where
    "w2 = logger WARNING (ApiCallFailed (int k + 1) e)
            (w\<lparr>gets := Suc (gets w), timeline := timeline w @ [GET (gets w)]\<rparr>)"
  show ?case
  proof (cases "Suc k < n")
    case True
    define secs where "secs = retry_delay cl * (int k + 1)"
    define w3 where
      "w3 = w2\<lparr>sleeps := sleeps w2 @ [secs], timeline := timeline w2 @ [SLEEP secs]\<rparr>"
    have "int k + 1 \<le> int n - 1" using True by simp
    then have "secs \<le> retry_delay cl * (int n - 1)"
      unfolding secs_def using rd by (rule mult_left_mono)
    then have hi: "secs \<le> max_sleep" using bound by simp
    have lo: "0 \<le> secs"
      unfolding secs_def using rd by (simp add: mult_nonneg_nonneg)
    have "0 \<le> max_sleep" by (simp add: max_sleep_def)
    with lo hi have ts: "time_sleep secs w2 = Inr w3"
      by (simp add: time_sleep_def w3_def)
    have step: "api_attempts cl ev url params (map int [k..<n]) w
        = api_attempts cl ev url params (map int [Suc k..<n]) w3"
      using True e mr ts [unfolded w2_def secs_def]
      by (simp add: l Let_def)
    have g3: "gets w3 = g + Suc k"
      and s3: "sleeps w3 = sleeps w @ [retry_delay cl * (int k + 1)]"
      and t3: "timeline w3 = timeline w @ [GET (g + k), SLEEP (retry_delay cl * int (Suc k))]"
      using Suc.prems(2) by (simp_all add: w3_def w2_def logger_def secs_def add.commute)
    have d: "d = n - Suc k" using Suc.hyps(2) by simp
    have hyp: "\<forall>j. Suc k \<le> j \<and> j < n \<longrightarrow> get_fails ev (g + j) url params"
      using Suc.prems(3) by simp
    note ih = Suc.hyps(1) [OF d True g3 hyp]
    have c: "[k..<n - 1] = k # [Suc k..<n - 1]" using True by (simp add: upt_conv_Cons)
    have rest: "concat (map (\<lambda>j. GET (g + j) #
          (if Suc j < n then [SLEEP (retry_delay cl * int (Suc j))] else [])) [k..<n])
        = GET (g + k) # SLEEP (retry_delay cl * int (Suc k)) #
          concat (map (\<lambda>j. GET (g + j) #
            (if Suc j < n then [SLEEP (retry_delay cl * int (Suc j))] else [])) [Suc k..<n])"
      using True by (simp add: l')
    show ?thesis
      unfolding step rest c using ih [unfolded s3 t3] by simp
  next
    case False
    with Suc.prems(1) have n: "n = Suc k" by simp
    show ?thesis
      using e mr Suc.prems(2) by (simp add: l n Let_def logger_def)
  qed
qed

lemma attempt_numbers: "map (\<lambda>j. r * (int j + 1)) [0..<n - 1] = map (\<lambda>j. r * int j) [1..<n]"
proof -
  have "[1..<n] = map Suc [0..<n - 1]"
    by (cases n) (simp_all add: map_Suc_upt)
  then show ?thesis by (simp add: o_def add.commute)
qed

lemma delays_increasing:
  "0 < (r::int) \<Longrightarrow> sorted_wrt (<) (map (\<lambda>j. r * int j) [1..<n])"
  by (simp add: sorted_wrt_map sorted_wrt_upt)

lemma find_filter:
  "find P xs = (case filter P xs of [] \<Rightarrow> None | x # _ \<Rightarrow> Some x)"
  by (induction xs) auto

lemma parse_xml_malformed:
  "fromstring ev body = Inl (ParseError m) \<Longrightarrow>
   parse_xml ev (Some body) w
     = (Inl (ParseError m), logger ERROR (FailedToParseXml (ParseError m)) w)"
  by (simp add: parse_xml_def)

section \<open>Claims on the client\<close>

text \<open>
  C1, amended. Let the client have \<open>max_retries \<ge> 1\<close> and \<open>retry_delay \<ge> 0\<close>, let
  \<open>retry_delay * (max_retries - 1)\<close> be at most 9223372036, the longest sleep that
  \<open>time.sleep\<close> accepts, and let every GET of a call of \<open>_safe_api_call\<close> fail: with
  a request exception (a connection error, a timeout) or with an error status (400 to
  599). Then the call issues exactly \<open>max_retries\<close> GETs; after the failed attempt
  number \<open>k\<close>, for \<open>k = 1, \<dots>, max_retries - 1\<close>, and before the next attempt, it sleeps
  \<open>retry_delay * k\<close>; after the last attempt it does not sleep and raises the exception
  of that attempt. The delays are strictly increasing when \<open>retry_delay > 0\<close>.
\<close>

theorem safe_api_call_persistent_failure:
  assumes "1 \<le> max_retries cl" and "0 \<le> retry_delay cl"
    and "retry_delay cl * (max_retries cl - 1) \<le> max_sleep"
    and "\<forall>j < nat (max_retries cl). get_fails ev (gets w + j) url params"
  shows "gets (snd (safe_api_call cl ev url params w)) = gets w + nat (max_retries cl)
    \<and> sleeps (snd (safe_api_call cl ev url params w))
        = sleeps w @ map (\<lambda>k. retry_delay cl * int k) [1..<nat (max_retries cl)]
    \<and> timeline (snd (safe_api_call cl ev url params w))
        = timeline w @ concat (map (\<lambda>j. GET (gets w + j) #
            (if Suc j < nat (max_retries cl) then [SLEEP (retry_delay cl * int (Suc j))]
             else [])) [0..<nat (max_retries cl)])
    \<and> fst (safe_api_call cl ev url params w)
        = map_sum id Some (http_attempt ev (gets w + nat (max_retries cl) - 1) url params)
    \<and> (\<exists>e. fst (safe_api_call cl ev url params w) = Inl e \<and> is_RequestException e)
    \<and> (0 < retry_delay cl \<longrightarrow>
         sorted_wrt (<) (map (\<lambda>k. retry_delay cl * int k) [1..<nat (max_retries cl)]))"
proof -
  define n where "n = nat (max_retries cl)"
  have mr: "max_retries cl = int n" and pos: "0 < n"
    using assms(1) by (simp_all add: n_def)
  have bound: "retry_delay cl * (int n - 1) \<le> max_sleep"
    using assms(3) mr by simp
  have hyp: "\<forall>j. 0 \<le> j \<and> j < n \<longrightarrow> get_fails ev (gets w + j) url params"
    using assms(4) by (simp add: n_def)
  have call: "safe_api_call cl ev url params w = api_attempts cl ev url params (map int [0..<n]) w"
    by (simp add: safe_api_call_def py_range_def n_def)
  have g: "gets w = gets w + 0" by simp
  note r = api_attempts_all_fail [OF mr assms(2) bound pos g hyp, folded call]
  have "n - 1 < n" using pos by simp
  with assms(4) have "get_fails ev (gets w + (n - 1)) url params"
    unfolding n_def [symmetric] by blast
  moreover have "gets w + (n - 1) = gets w + n - 1" using pos by simp
  ultimately have "get_fails ev (gets w + n - 1) url params" by simp
  then obtain e
    where e: "http_attempt ev (gets w + n - 1) url params = Inl e" "is_RequestException e"
    using get_fails_attempt by blast
  have f: "fst (safe_api_call cl ev url params w)
      = map_sum id Some (http_attempt ev (gets w + n - 1) url params)"
    using r by simp
  have "\<exists>e. fst (safe_api_call cl ev url params w) = Inl e \<and> is_RequestException e"
    using f e by simp
  moreover have "sleeps (snd (safe_api_call cl ev url params w))
      = sleeps w @ map (\<lambda>k. retry_delay cl * int k) [1..<n]"
    using r attempt_numbers [of "retry_delay cl" n] by simp
  moreover have "gets (snd (safe_api_call cl ev url params w)) = gets w + n"
    using r by simp
  moreover have "timeline (snd (safe_api_call cl ev url params w))
      = timeline w @ concat (map (\<lambda>j. GET (gets w + j) #
          (if Suc j < n then [SLEEP (retry_delay cl * int (Suc j))] else [])) [0..<n])"
    using r by blast
  ultimately show ?thesis
    using f delays_increasing [of "retry_delay cl" n] unfolding n_def by blast
qed

theorem safe_api_call_persistent_failure_witness:
  "gets (snd (safe_api_call (BGGDataClient 3 2) overloaded_env
       ''https://boardgamegeek.com/xmlapi2/search'' (search_params ''Catan'') world0)) = 3
   \<and> sleeps (snd (safe_api_call (BGGDataClient 3 2) overloaded_env
       ''https://boardgamegeek.com/xmlapi2/search'' (search_params ''Catan'') world0)) = [2, 4]
   \<and> timeline (snd (safe_api_call (BGGDataClient 3 2) overloaded_env
       ''https://boardgamegeek.com/xmlapi2/search'' (search_params ''Catan'') world0))
      = [GET 0, SLEEP 2, GET 1, SLEEP 4, GET 2]
   \<and> fst (safe_api_call (BGGDataClient 3 2) overloaded_env
       ''https://boardgamegeek.com/xmlapi2/search'' (search_params ''Catan'') world0)
      = Inl (HTTPError 503)"
proof -
  let ?cl = "BGGDataClient 3 2"
  let ?url = "''https://boardgamegeek.com/xmlapi2/search''"
  have a: "1 \<le> max_retries ?cl" and b: "0 \<le> retry_delay ?cl"
    and c: "retry_delay ?cl * (max_retries ?cl - 1) \<le> max_sleep"
    by (simp_all add: BGGDataClient_def max_sleep_def)
  have d: "\<forall>j < nat (max_retries ?cl).
      get_fails overloaded_env (gets world0 + j) ?url (search_params ''Catan'')"
    by (simp add: overloaded_env_def get_fails_def)
  have n: "nat (max_retries ?cl) = 3" and r: "retry_delay ?cl = 2"
    by (simp_all add: BGGDataClient_def)
  have l: "[1..<3] = [1, 2]" and l0: "[0..<3] = [0, 1, 2]" by code_simp+
  have g: "gets world0 = 0" and s: "sleeps world0 = []" and t: "timeline world0 = []"
    by (simp_all add: world0_def)
  have h: "http_attempt overloaded_env 2 ?url (search_params ''Catan'') = Inl (HTTPError 503)"
    by (simp add: http_attempt_def overloaded_env_def raise_for_status_def)
  show ?thesis
    using safe_api_call_persistent_failure [OF a b c d]
    unfolding n r l l0 g s t by (simp add: h)
qed

text \<open>
  C1 as stated has the delays strictly increasing for every client. With
  \<open>retry_delay = 0\<close> and three attempts the two delays are both 0.
\<close>

theorem safe_api_call_delays_counterexample:
  "sleeps (snd (safe_api_call (BGGDataClient 3 0) unreachable_env
       ''https://boardgamegeek.com/xmlapi2/search'' (search_params ''Catan'') world0)) = [0, 0]
   \<and> \<not> sorted_wrt (<) [0 :: int, 0]"
proof -
  have "sleeps (snd (safe_api_call (BGGDataClient 3 0) unreachable_env
       ''https://boardgamegeek.com/xmlapi2/search'' (search_params ''Catan'') world0)) = [0, 0]"
    by code_simp
  then show ?thesis by simp
qed

text \<open>
  C2. When \<open>ET.fromstring\<close> raises \<open>ParseError\<close> on a text, \<open>_parse_xml\<close> logs the
  error and raises it. When the text that \<open>_safe_api_call\<close> fetched for a lookup is
  such a text, \<open>get_game_id\<close> and \<open>get_game_info\<close> return \<open>None\<close> and
  \<open>get_game_comments\<close> returns the empty list; none of them raises.
\<close>

theorem malformed_xml_degrades:
  assumes "fromstring ev body = Inl (ParseError m)"
  shows "parse_xml ev (Some body) w
      = (Inl (ParseError m), logger ERROR (FailedToParseXml (ParseError m)) w)
    \<and> (fst (safe_api_call cl ev (search_url cl) (search_params game_name) w) = Inr (Some body)
         \<longrightarrow> fst (get_game_id cl ev game_name w) = Inr None)
    \<and> (fst (safe_api_call cl ev (thing_url cl) (info_params game_id) w) = Inr (Some body)
         \<longrightarrow> fst (get_game_info cl ev game_id w) = Inr None)
    \<and> (fst (safe_api_call cl ev (thing_url cl) (comments_params game_id max_comments) w)
           = Inr (Some body)
         \<longrightarrow> fst (get_game_comments cl ev game_id max_comments w) = Inr [])"
proof -
  note p = parse_xml_malformed [OF assms]
  have "fst (get_game_id cl ev game_name w) = Inr None"
    if "fst (safe_api_call cl ev (search_url cl) (search_params game_name) w) = Inr (Some body)"
    using that p
    by (cases "safe_api_call cl ev (search_url cl) (search_params game_name) w")
       (simp add: get_game_id_def get_game_id_try_def)
  moreover have "fst (get_game_info cl ev game_id w) = Inr None"
    if "fst (safe_api_call cl ev (thing_url cl) (info_params game_id) w) = Inr (Some body)"
    using that p
    by (cases "safe_api_call cl ev (thing_url cl) (info_params game_id) w")
       (simp add: get_game_info_def get_game_info_try_def)
  moreover have "fst (get_game_comments cl ev game_id max_comments w) = Inr []"
    if "fst (safe_api_call cl ev (thing_url cl) (comments_params game_id max_comments) w)
          = Inr (Some body)"
    using that p
    by (cases "safe_api_call cl ev (thing_url cl) (comments_params game_id max_comments) w")
       (simp add: get_game_comments_def get_game_comments_try_def)
  ultimately show ?thesis using p by blast
qed

theorem malformed_xml_degrades_witness:
  "fromstring example_env ''<items><item''
      = Inl (ParseError ''unclosed token: line 1, column 7'')
   \<and> fst (safe_api_call (BGGDataClient 3 2) example_env
        (search_url (BGGDataClient 3 2)) (search_params ''Broken'') world0)
      = Inr (Some ''<items><item'')
   \<and> fst (get_game_id (BGGDataClient 3 2) example_env ''Broken'' world0) = Inr None
   \<and> fst (get_game_info (BGGDataClient 3 2) example_env 999 world0) = Inr None
   \<and> fst (get_game_comments (BGGDataClient 3 2) example_env 999 5 world0) = Inr []"
proof -
  let ?cl = "BGGDataClient 3 2"
  have a: "fromstring example_env ''<items><item''
      = Inl (ParseError ''unclosed token: line 1, column 7'')"
    by code_simp
  have b: "fst (safe_api_call ?cl example_env (search_url ?cl) (search_params ''Broken'') world0)
      = Inr (Some ''<items><item'')"
    by code_simp
  have c: "fst (safe_api_call ?cl example_env (thing_url ?cl) (info_params 999) world0)
      = Inr (Some ''<items><item'')"
    by code_simp
  have d: "fst (safe_api_call ?cl example_env (thing_url ?cl) (comments_params 999 5) world0)
      = Inr (Some ''<items><item'')"
    by code_simp
  from malformed_xml_degrades [OF a, where cl = ?cl and game_name = "''Broken''"
      and w = world0 and game_id = 999 and max_comments = 5] a b c d
  show ?thesis by blast
qed

text \<open>
  C3. Let the search for a name fetch a text that parses to a document. If the root
  has no \<open>item\<close> child, \<open>get_game_id\<close> returns \<open>None\<close> and does not raise. If it has
  one, \<open>get_game_id\<close> returns the integer that \<open>int\<close> makes of the \<open>id\<close> attribute of
  the first of them (a search response gives every item an integer \<open>id\<close>; when the
  attribute is missing or is no integer the result is \<open>None\<close>).
\<close>

theorem get_game_id_spec:
  assumes "fst (safe_api_call cl ev (search_url cl) (search_params game_name) w)
      = Inr (Some body)"
    and "fromstring ev body = Inr root"
  shows "(filter (\<lambda>c. tag c = ''item'') (children root) = []
           \<longrightarrow> fst (get_game_id cl ev game_name w) = Inr None)
    \<and> (\<forall>item rest s n.
          filter (\<lambda>c. tag c = ''item'') (children root) = item # rest
          \<and> elem_get item ''id'' = Some s \<and> int_of_str ev s = Inr n
           \<longrightarrow> fst (get_game_id cl ev game_name w) = Inr (Some n))
    \<and> (\<forall>item rest.
          filter (\<lambda>c. tag c = ''item'') (children root) = item # rest
           \<longrightarrow> fst (get_game_id cl ev game_name w)
               = Inr (case py_int ev (elem_get item ''id'') of
                        Inl e \<Rightarrow> None | Inr n \<Rightarrow> Some n))"
proof -
  obtain w1 where call:
    "safe_api_call cl ev (search_url cl) (search_params game_name) w = (Inr (Some body), w1)"
    using assms(1)
    by (cases "safe_api_call cl ev (search_url cl) (search_params game_name) w") simp
  have p: "parse_xml ev (Some body) w1 = (Inr root, w1)"
    using assms(2) by (simp add: parse_xml_def)
  have none: "fst (get_game_id cl ev game_name w) = Inr None"
    if "filter (\<lambda>c. tag c = ''item'') (children root) = []"
    using that call p
    by (simp add: get_game_id_def get_game_id_try_def elem_find_def find_filter)
  have some: "fst (get_game_id cl ev game_name w)
      = Inr (case py_int ev (elem_get item ''id'') of Inl e \<Rightarrow> None | Inr n \<Rightarrow> Some n)"
    if "filter (\<lambda>c. tag c = ''item'') (children root) = item # rest" for item rest
    using that call p
    by (simp add: get_game_id_def get_game_id_try_def elem_find_def find_filter
          split: sum.splits)
  have "fst (get_game_id cl ev game_name w) = Inr (Some n)"
    if "filter (\<lambda>c. tag c = ''item'') (children root) = item # rest"
      and "elem_get item ''id'' = Some s" and "int_of_str ev s = Inr n" for item rest s n
    using some [OF that(1)] that(2,3) by (simp add: py_int_def)
  with none some show ?thesis by blast
qed

theorem get_game_id_spec_witness:
  "fst (get_game_id (BGGDataClient 3 2) example_env ''Catan'' world0) = Inr (Some 13)
   \<and> fst (get_game_id (BGGDataClient 3 2) example_env ''Unknown Game Xyz123'' world0)
      = Inr None"
proof -
  let ?cl = "BGGDataClient 3 2"
  have a: "fst (safe_api_call ?cl example_env (search_url ?cl) (search_params ''Catan'') world0)
      = Inr (Some ''<catan search>'')"
    by code_simp
  have b: "fromstring example_env ''<catan search>'' = Inr catan_search"
    by code_simp
  have c: "filter (\<lambda>c. tag c = ''item'') (children catan_search)
      = [Element ''item'' [(''type'', ''boardgame''), (''id'', ''13'')] None
          [Element ''name'' [(''type'', ''primary''), (''value'', ''CATAN'')] None [],
           Element ''yearpublished'' [(''value'', ''1995'')] None []]]"
    by code_simp
  have d: "elem_get (Element ''item'' [(''type'', ''boardgame''), (''id'', ''13'')] None
          [Element ''name'' [(''type'', ''primary''), (''value'', ''CATAN'')] None [],
           Element ''yearpublished'' [(''value'', ''1995'')] None []]) ''id'' = Some ''13''"
    by code_simp
  have e: "int_of_str example_env ''13'' = Inr 13"
    by code_simp
  have a': "fst (safe_api_call ?cl example_env (search_url ?cl)
        (search_params ''Unknown Game Xyz123'') world0) = Inr (Some ''<empty search>'')"
    by code_simp
  have b': "fromstring example_env ''<empty search>'' = Inr empty_search"
    by code_simp
  have c': "filter (\<lambda>c. tag c = ''item'') (children empty_search) = []"
    by code_simp
  from get_game_id_spec [OF a b] c d e
  have "fst (get_game_id ?cl example_env ''Catan'' world0) = Inr (Some 13)" by blast
  moreover from get_game_id_spec [OF a' b'] c'
  have "fst (get_game_id ?cl example_env ''Unknown Game Xyz123'' world0) = Inr None" by blast
  ultimately show ?thesis by blast
qed

section \<open>Properties of the retriever\<close>

lemma files_logger [simp]: "files (logger lv m w) = files w"
  by (simp add: logger_def)

lemma timeline_logger [simp]: "timeline (logger lv m w) = timeline w"
  by (simp add: logger_def)

lemma written_append [simp]: "written (xs @ ys) = written xs @ written ys"
  by (induction xs rule: written.induct) simp_all

lemma storage_api_attempts:
  "files (snd (api_attempts cl ev url params as w)) = files w
   \<and> written (timeline (snd (api_attempts cl ev url params as w))) = written (timeline w)"
proof (induction as arbitrary: w)
  case Nil
  show ?case by simp
next
  case (Cons a as)
  show ?case
    by (auto simp: Let_def time_sleep_def Cons.IH split: sum.splits)
qed

lemma storage_safe_api_call:
  "safe_api_call cl ev url params w = (x, w1) \<Longrightarrow>
   files w1 = files w \<and> written (timeline w1) = written (timeline w)"
  using storage_api_attempts [of cl ev url params "py_range (max_retries cl)" w]
  by (simp add: safe_api_call_def)

lemma storage_parse_xml:
  "parse_xml ev x w = (y, w1) \<Longrightarrow>
   files w1 = files w \<and> written (timeline w1) = written (timeline w)"
  by (auto simp: parse_xml_def split: option.splits sum.splits if_splits)

lemma storage_get_game_id:
  "files (snd (get_game_id cl ev game_name w)) = files w
   \<and> written (timeline (snd (get_game_id cl ev game_name w))) = written (timeline w)"
  by (auto simp: get_game_id_def get_game_id_try_def
      split: prod.splits sum.splits option.splits
      dest!: storage_safe_api_call storage_parse_xml)

lemma storage_get_game_comments:
  "files (snd (get_game_comments cl ev game_id mc w)) = files w
   \<and> written (timeline (snd (get_game_comments cl ev game_id mc w))) = written (timeline w)"
  by (auto simp: get_game_comments_def get_game_comments_try_def
      split: prod.splits sum.splits option.splits
      dest!: storage_safe_api_call storage_parse_xml)

lemma get_game_comments_returns:
  "get_game_comments cl ev i mc w \<noteq> (Inl e, w')"
  by (auto simp: get_game_comments_def split: prod.splits sum.splits)

lemma keys_dict_set:
  "map fst (dict_set d k v) = (if k \<in> set (map fst d) then map fst d else map fst d @ [k])"
  by (induction d) force+

lemma first_occurrences_snoc:
  "first_occurrences (xs @ [x])
     = (if x \<in> set xs then first_occurrences xs else first_occurrences xs @ [x])"
  by (simp add: first_occurrences_def)

lemma set_first_occurrences [simp]: "set (first_occurrences xs) = set xs"
  by (simp add: first_occurrences_def)

lemma retrieve_loop_snoc:
  "retrieve_loop r ev st mc (games @ [g]) acc w
     = (case retrieve_loop r ev st mc games acc w of
          (acc', w') \<Rightarrow> retrieve_one r ev st mc g acc' w')"
  by (induction games arbitrary: acc w) (auto split: prod.splits)

lemma keys_retrieve_one:
  "map fst (fst (retrieve_one r ev st mc g acc w))
     = (case fst (get_game_id (bgg_client r) ev g w) of
          Inr (Some game_id) \<Rightarrow>
            if g \<in> set (map fst acc) then map fst acc else map fst acc @ [g]
        | _ \<Rightarrow> map fst acc)"
  by (auto simp: retrieve_one_def Let_def keys_dict_set get_game_comments_returns
      split: prod.splits sum.splits option.splits)

lemma storage_dump_to_file:
  "dump_to_file st path v w = (x, w1) \<Longrightarrow>
   (\<forall>p. p \<noteq> path \<longrightarrow> files w1 p = files w p)
   \<and> (\<exists>ws. written (timeline w1) = written (timeline w) @ ws \<and> set (map fst ws) \<subseteq> {path})"
  by (auto simp: dump_to_file_def write_file_def split: write_outcome.splits)

lemma storage_save_game_comments:
  "save_game_comments r st g cs w = (x, w1) \<Longrightarrow>
   (\<forall>p. p \<noteq> game_filename r g \<longrightarrow> files w1 p = files w p)
   \<and> (\<exists>ws. written (timeline w1) = written (timeline w) @ ws
          \<and> set (map fst ws) \<subseteq> {game_filename r g})"
  by (auto simp: save_game_comments_def split: prod.splits option.splits if_splits
      dest!: storage_dump_to_file)

lemma storage_retrieve_one_absent:
  assumes "\<not> (\<exists>i. fst (get_game_id (bgg_client r) ev g w) = Inr (Some i))"
  shows "fst (retrieve_one r ev st mc g acc w) = acc
    \<and> files (snd (retrieve_one r ev st mc g acc w)) = files w
    \<and> written (timeline (snd (retrieve_one r ev st mc g acc w))) = written (timeline w)"
  using assms storage_get_game_id [of "bgg_client r" ev g w]
  by (auto simp: retrieve_one_def split: prod.splits sum.splits option.splits)

lemma storage_retrieve_one:
  "(\<forall>p. p \<noteq> game_filename r g \<longrightarrow> files (snd (retrieve_one r ev st mc g acc w)) p = files w p)
   \<and> (\<exists>ws. written (timeline (snd (retrieve_one r ev st mc g acc w)))
              = written (timeline w) @ ws
          \<and> set (map fst ws) \<subseteq> {game_filename r g}
          \<and> (ws \<noteq> [] \<longrightarrow> (\<exists>i. fst (get_game_id (bgg_client r) ev g w) = Inr (Some i))))"
proof (cases "\<exists>i. fst (get_game_id (bgg_client r) ev g w) = Inr (Some i)")
  case False
  from storage_retrieve_one_absent [OF False] show ?thesis by simp
next
  case True
  then obtain i w1 where id: "get_game_id (bgg_client r) ev g w = (Inr (Some i), w1)"
    by (cases "get_game_id (bgg_client r) ev g w") auto
  obtain cs w2 where gc: "get_game_comments (bgg_client r) ev i mc w1 = (Inr cs, w2)"
    using get_game_comments_returns
    by (metis old.sum.exhaust surj_pair)
  obtain x w4 where sv: "save_game_comments r st g cs
      (logger INFO (RetrievedComments (length cs) g) w2) = (x, w4)"
    by (cases "save_game_comments r st g cs (logger INFO (RetrievedComments (length cs) g) w2)")
  have w1: "files w1 = files w" "written (timeline w1) = written (timeline w)"
    using storage_get_game_id [of "bgg_client r" ev g w] id by simp_all
  have w2: "files w2 = files w1" "written (timeline w2) = written (timeline w1)"
    using storage_get_game_comments [of "bgg_client r" ev i mc w1] gc by simp_all
  have res: "files (snd (retrieve_one r ev st mc g acc w)) = files w4"
    "timeline (snd (retrieve_one r ev st mc g acc w)) = timeline w4"
    using id gc sv by (auto simp: retrieve_one_def Let_def split: sum.splits)
  from storage_save_game_comments [OF sv] w1 w2 True show ?thesis
    unfolding res by simp
qed

lemma game_file_not_full: "game_filename r g \<noteq> full_dataset_path r"
proof
  assume "game_filename r g = full_dataset_path r"
  then have e: "sanitize_filename g @ ''_comments.json'' = ''full_comments_dataset.json''"
    by (auto simp: game_filename_def full_dataset_path_def path_join_def split: if_splits)
  from arg_cong [OF e, of length] have n: "length (sanitize_filename g) = 12" by simp
  from arg_cong [OF e, of "drop 12"] n show False by simp
qed

lemma files_retrieve_one_changed:
  assumes "files (snd (retrieve_one r ev st mc g acc w)) p \<noteq> files w p"
  shows "p = game_filename r g \<and> (\<exists>i. fst (get_game_id (bgg_client r) ev g w) = Inr (Some i))"
  using assms storage_retrieve_one [of r g ev st mc acc w]
    storage_retrieve_one_absent [of r ev g w st mc acc]
  by metis

lemma lookup_succeeds_iff:
  "lookup_succeeds r ev st mc games w i
     = (\<exists>n. fst (get_game_id (bgg_client r) ev (games ! i) (world_before r ev st mc games w i))
             = Inr (Some n))"
  by (auto simp: lookup_succeeds_def split: sum.splits option.splits)

lemma world_before_snoc:
  "i \<le> length gs \<Longrightarrow>
   world_before r ev st mc (gs @ [g]) w i = world_before r ev st mc gs w i"
  by (simp add: world_before_def)

lemma lookup_succeeds_snoc:
  "i < length gs \<Longrightarrow>
   lookup_succeeds r ev st mc (gs @ [g]) w i = lookup_succeeds r ev st mc gs w i"
  by (simp add: lookup_succeeds_def world_before_snoc nth_append)

lemma world_before_Suc:
  assumes "i < length games"
  shows "world_before r ev st mc games w (Suc i)
     = snd (retrieve_one r ev st mc (games ! i)
         (fst (retrieve_loop r ev st mc (take i games) [] w))
         (world_before r ev st mc games w i))"
  using assms
  by (simp add: world_before_def take_Suc_conv_app_nth retrieve_loop_snoc split: prod.splits)

lemma keys_retrieve_loop:
  "map fst (fst (retrieve_loop r ev st mc games [] w))
     = first_occurrences (map ((!) games)
         (filter (lookup_succeeds r ev st mc games w) [0..<length games]))"
proof (induction games rule: rev_induct)
  case Nil
  show ?case by (simp add: first_occurrences_def)
next
  case (snoc g gs)
  have f: "filter (lookup_succeeds r ev st mc (gs @ [g]) w) [0..<length gs]
      = filter (lookup_succeeds r ev st mc gs w) [0..<length gs]"
    by (rule filter_cong) (simp_all add: lookup_succeeds_snoc)
  have m: "map ((!) (gs @ [g])) (filter (lookup_succeeds r ev st mc gs w) [0..<length gs])
      = map ((!) gs) (filter (lookup_succeeds r ev st mc gs w) [0..<length gs])"
    by (rule map_cong) (simp_all add: nth_append)
  obtain acc w' where l: "retrieve_loop r ev st mc gs [] w = (acc, w')"
    by (cases "retrieve_loop r ev st mc gs [] w")
  have last: "lookup_succeeds r ev st mc (gs @ [g]) w (length gs)
      = (case fst (get_game_id (bgg_client r) ev g w') of Inr (Some i) \<Rightarrow> True | _ \<Rightarrow> False)"
    by (simp add: lookup_succeeds_def world_before_def l)
  have sub: "set (map ((!) gs) (filter (lookup_succeeds r ev st mc gs w) [0..<length gs]))
      = set (map fst acc)"
    using snoc.IH l by (metis fst_conv set_first_occurrences)
  show ?case
    using snoc.IH sub
    by (simp add: retrieve_loop_snoc l keys_retrieve_one f m last first_occurrences_snoc
        split: sum.splits option.splits)
qed

lemma written_retrieve_loop:
  "\<exists>ws. written (timeline (snd (retrieve_loop r ev st mc games [] w)))
          = written (timeline w) @ ws
      \<and> (\<forall>p \<in> set (map fst ws). \<exists>i < length games.
            lookup_succeeds r ev st mc games w i \<and> p = game_filename r (games ! i))"
proof (induction games rule: rev_induct)
  case Nil
  show ?case by simp
next
  case (snoc g gs)
  obtain acc w' where l: "retrieve_loop r ev st mc gs [] w = (acc, w')"
    by (cases "retrieve_loop r ev st mc gs [] w")
  from snoc.IH l obtain ws where ws: "written (timeline w') = written (timeline w) @ ws"
    and old: "\<forall>p \<in> set (map fst ws). \<exists>i < length gs.
            lookup_succeeds r ev st mc gs w i \<and> p = game_filename r (gs ! i)"
    by auto
  from storage_retrieve_one [of r g ev st mc acc w'] obtain ws'
    where ws': "written (timeline (snd (retrieve_one r ev st mc g acc w')))
          = written (timeline w') @ ws'"
      and p': "set (map fst ws') \<subseteq> {game_filename r g}"
      and f': "ws' \<noteq> [] \<longrightarrow> (\<exists>i. fst (get_game_id (bgg_client r) ev g w') = Inr (Some i))"
    by blast
  have w'': "world_before r ev st mc (gs @ [g]) w (length gs) = w'"
    by (simp add: world_before_def l)
  have "\<exists>i < length (gs @ [g]).
      lookup_succeeds r ev st mc (gs @ [g]) w i \<and> p = game_filename r ((gs @ [g]) ! i)"
    if "p \<in> set (map fst (ws @ ws'))" for p
  proof (cases "p \<in> set (map fst ws)")
    case True
    with old obtain i where "i < length gs" "lookup_succeeds r ev st mc gs w i"
      "p = game_filename r (gs ! i)" by blast
    then show ?thesis
      by (metis length_append_singleton less_Suc_eq lookup_succeeds_snoc nth_append)
  next
    case False
    with that have in': "p \<in> set (map fst ws')" by auto
    then have "ws' \<noteq> []" by auto
    with f' have "lookup_succeeds r ev st mc (gs @ [g]) w (length gs)"
      by (simp add: lookup_succeeds_iff w'')
    moreover from in' p' have "p = game_filename r ((gs @ [g]) ! length gs)" by auto
    ultimately show ?thesis by (metis length_append_singleton lessI)
  qed
  then show ?case
    using ws ws' by (simp add: retrieve_loop_snoc l) blast
qed

section \<open>Claims on the retriever\<close>

text \<open>
  C7. The dataset that \<open>retrieve_comments\<close> returns has a key exactly for the names
  whose lookup, in the world in which the loop takes the name up, returned an id; the
  keys stand in the order of the input, a name that occurs again keeping its first
  place. A turn of the loop whose lookup returns no id changes no file and writes
  nothing. The writes of the loop go to the per-game files of names whose lookup
  succeeded, and none of them to the aggregate file. When the aggregate file can be
  written, the call returns the dataset and its last action is the one write of the
  dataset to the aggregate file. So for a single name whose lookup returns \<open>None\<close>
  the result is the empty dataset, and the one write of the call puts the empty dict
  into the aggregate file.
\<close>

theorem retrieve_comments_entries:
  "(\<forall>d. fst (retrieve_comments r ev st games mc w) = Inr d \<longrightarrow>
      map fst d = first_occurrences (map ((!) games)
        (filter (lookup_succeeds r ev st mc games w) [0..<length games])))
   \<and> (\<forall>i < length games. \<not> lookup_succeeds r ev st mc games w i \<longrightarrow>
        files (world_before r ev st mc games w (Suc i))
          = files (world_before r ev st mc games w i)
        \<and> written (timeline (world_before r ev st mc games w (Suc i)))
          = written (timeline (world_before r ev st mc games w i)))
   \<and> (\<exists>ws. written (timeline (world_before r ev st mc games w (length games)))
            = written (timeline w) @ ws
        \<and> (\<forall>p \<in> set (map fst ws). \<exists>i < length games.
              lookup_succeeds r ev st mc games w i \<and> p = game_filename r (games ! i))
        \<and> full_dataset_path r \<notin> set (map fst ws))
   \<and> (write_result st (full_dataset_path r)
          (json_dumps st (dataset_value (fst (retrieve_loop r ev st mc games [] w)))) = Written
        \<longrightarrow>
        fst (retrieve_comments r ev st games mc w)
          = Inr (fst (retrieve_loop r ev st mc games [] w))
        \<and> timeline (snd (retrieve_comments r ev st games mc w))
          = timeline (world_before r ev st mc games w (length games))
            @ [WRITE (full_dataset_path r)
                 (json_dumps st (dataset_value (fst (retrieve_loop r ev st mc games [] w))))]
        \<and> files (snd (retrieve_comments r ev st games mc w))
          = (files (world_before r ev st mc games w (length games)))
              (full_dataset_path r \<mapsto>
                 json_dumps st (dataset_value (fst (retrieve_loop r ev st mc games [] w)))))
   \<and> (fst (get_game_id (bgg_client r) ev name w) = Inr None
        \<and> write_result st (full_dataset_path r) (json_dumps st (PDict [])) = Written
        \<longrightarrow>
        fst (retrieve_comments r ev st [name] mc w) = Inr []
        \<and> files (snd (retrieve_comments r ev st [name] mc w))
          = (files w)(full_dataset_path r \<mapsto> json_dumps st (PDict []))
        \<and> written (timeline (snd (retrieve_comments r ev st [name] mc w)))
          = written (timeline w) @ [(full_dataset_path r, json_dumps st (PDict []))])"
proof -
  obtain acc wn where l: "retrieve_loop r ev st mc games [] w = (acc, wn)"
    by (cases "retrieve_loop r ev st mc games [] w")
  have wn: "world_before r ev st mc games w (length games) = wn"
    by (simp add: world_before_def l)
  have a: "map fst d = first_occurrences (map ((!) games)
        (filter (lookup_succeeds r ev st mc games w) [0..<length games]))"
    if "fst (retrieve_comments r ev st games mc w) = Inr d" for d
  proof -
    from that have "d = acc"
      by (auto simp: retrieve_comments_def l split: prod.splits sum.splits)
    with keys_retrieve_loop [of r ev st mc games w] l show ?thesis by simp
  qed
  have b: "files (world_before r ev st mc games w (Suc i))
          = files (world_before r ev st mc games w i)
        \<and> written (timeline (world_before r ev st mc games w (Suc i)))
          = written (timeline (world_before r ev st mc games w i))"
    if "i < length games" and "\<not> lookup_succeeds r ev st mc games w i" for i
    using that storage_retrieve_one_absent
    by (simp add: world_before_Suc lookup_succeeds_iff)
  from written_retrieve_loop [of r ev st mc games w] obtain ws
    where ws: "written (timeline wn) = written (timeline w) @ ws"
      and per_game: "\<forall>p \<in> set (map fst ws). \<exists>i < length games.
              lookup_succeeds r ev st mc games w i \<and> p = game_filename r (games ! i)"
    unfolding l by auto
  from per_game have not_full: "full_dataset_path r \<notin> set (map fst ws)"
    using game_file_not_full by metis
  have c: "\<exists>ws. written (timeline (world_before r ev st mc games w (length games)))
            = written (timeline w) @ ws
        \<and> (\<forall>p \<in> set (map fst ws). \<exists>i < length games.
              lookup_succeeds r ev st mc games w i \<and> p = game_filename r (games ! i))
        \<and> full_dataset_path r \<notin> set (map fst ws)"
    unfolding wn using ws per_game not_full by blast
  have d: "fst (retrieve_comments r ev st games mc w) = Inr acc
        \<and> timeline (snd (retrieve_comments r ev st games mc w))
          = timeline wn @ [WRITE (full_dataset_path r) (json_dumps st (dataset_value acc))]
        \<and> files (snd (retrieve_comments r ev st games mc w))
          = (files wn)(full_dataset_path r \<mapsto> json_dumps st (dataset_value acc))"
    if "write_result st (full_dataset_path r) (json_dumps st (dataset_value acc)) = Written"
    using that
    by (simp add: retrieve_comments_def l save_full_dataset_def dump_to_file_def write_file_def)
  have e: "fst (retrieve_comments r ev st [name] mc w) = Inr []
        \<and> files (snd (retrieve_comments r ev st [name] mc w))
          = (files w)(full_dataset_path r \<mapsto> json_dumps st (PDict []))
        \<and> written (timeline (snd (retrieve_comments r ev st [name] mc w)))
          = written (timeline w) @ [(full_dataset_path r, json_dumps st (PDict []))]"
    if none: "fst (get_game_id (bgg_client r) ev name w) = Inr None"
      and wr: "write_result st (full_dataset_path r) (json_dumps st (PDict [])) = Written"
  proof -
    from none have "\<not> (\<exists>i. fst (get_game_id (bgg_client r) ev name w) = Inr (Some i))"
      by simp
    note one = storage_retrieve_one_absent [OF this, of st mc "[]"]
    obtain w1 where r1: "retrieve_one r ev st mc name [] w = ([], w1)"
      using one by (cases "retrieve_one r ev st mc name [] w") simp
    with one have "files w1 = files w" "written (timeline w1) = written (timeline w)"
      by simp_all
    with wr show ?thesis
      by (simp add: retrieve_comments_def r1 save_full_dataset_def dump_to_file_def
          write_file_def dataset_value_def)
  qed
  from a b c d e show ?thesis
    unfolding wn l fst_conv by blast
qed

theorem retrieve_comments_entries_witness:
  "fst (retrieve_comments (DataRetriever ''data/raw_comments'' None) example_env example_storage
          [''Catan'', ''Unknown Game Xyz123''] 500 world0)
     = Inr [(''Catan'',
             [[(''username'', PStr ''ann''), (''rating'', PStr ''8''),
               (''value'', PStr ''Catan IS Great!! (1995)'')],
              [(''username'', PStr ''bob''), (''rating'', PStr ''N/A''), (''value'', PNone)]])]
   \<and> first_occurrences (map ((!) [''Catan'', ''Unknown Game Xyz123''])
        (filter (lookup_succeeds (DataRetriever ''data/raw_comments'' None) example_env
                   example_storage 500 [''Catan'', ''Unknown Game Xyz123''] world0)
           [0..<length [''Catan'', ''Unknown Game Xyz123'']])) = [''Catan'']
   \<and> files (world_before (DataRetriever ''data/raw_comments'' None) example_env example_storage
               500 [''Catan'', ''Unknown Game Xyz123''] world0 (Suc 1))
     = files (world_before (DataRetriever ''data/raw_comments'' None) example_env example_storage
               500 [''Catan'', ''Unknown Game Xyz123''] world0 1)
   \<and> fst (retrieve_comments (DataRetriever ''data/raw_comments'' None) example_env
            example_storage [''Unknown Game Xyz123''] 10 world0) = Inr []
   \<and> files (snd (retrieve_comments (DataRetriever ''data/raw_comments'' None) example_env
                   example_storage [''Unknown Game Xyz123''] 10 world0))
        ''data/raw_comments/full_comments_dataset.json'' = Some ''{}''"
proof -
  let ?r = "DataRetriever ''data/raw_comments'' None"
  let ?games = "[''Catan'', ''Unknown Game Xyz123'']"
  let ?d = "[(''Catan'',
             [[(''username'', PStr ''ann''), (''rating'', PStr ''8''),
               (''value'', PStr ''Catan IS Great!! (1995)'')],
              [(''username'', PStr ''bob''), (''rating'', PStr ''N/A''), (''value'', PNone)]])]"
  have res: "fst (retrieve_comments ?r example_env example_storage ?games 500 world0) = Inr ?d"
    by code_simp
  have i: "1 < length ?games" by simp
  have absent: "\<not> lookup_succeeds ?r example_env example_storage 500 ?games world0 1"
    by code_simp
  have none: "fst (get_game_id (bgg_client ?r) example_env ''Unknown Game Xyz123'' world0)
      = Inr None"
    by code_simp
  have wr: "write_result example_storage (full_dataset_path ?r)
      (json_dumps example_storage (PDict [])) = Written"
    by (simp add: example_storage_def)
  have path: "full_dataset_path ?r = ''data/raw_comments/full_comments_dataset.json''"
    by code_simp
  have empty: "json_dumps example_storage (PDict []) = ''{}''"
    by code_simp
  have keys: "map fst ?d = [''Catan'']" by simp
  note t = retrieve_comments_entries [where r = ?r and ev = example_env
      and st = example_storage and w = world0 and name = "''Unknown Game Xyz123''"]
  from t [where games = ?games and mc = 500] res keys
  have a: "first_occurrences (map ((!) ?games)
        (filter (lookup_succeeds ?r example_env example_storage 500 ?games world0)
           [0..<length ?games])) = [''Catan'']"
    by metis
  from t [where games = ?games and mc = 500] i absent
  have b: "files (world_before ?r example_env example_storage 500 ?games world0 (Suc 1))
      = files (world_before ?r example_env example_storage 500 ?games world0 1)"
    by blast
  from t [where games = ?games and mc = 10] none wr
  have c: "fst (retrieve_comments ?r example_env example_storage [''Unknown Game Xyz123''] 10
              world0) = Inr []
    \<and> files (snd (retrieve_comments ?r example_env example_storage [''Unknown Game Xyz123'']
                    10 world0))
        = (files world0)(full_dataset_path ?r \<mapsto> json_dumps example_storage (PDict []))"
    by blast
  from c have "files (snd (retrieve_comments ?r example_env example_storage
        [''Unknown Game Xyz123''] 10 world0)) ''data/raw_comments/full_comments_dataset.json''
      = Some ''{}''"
    unfolding path empty by simp
  with res a b c show ?thesis by blast
qed




section \<open>Properties of the preprocessor\<close>







section \<open>Claims on the preprocessor\<close>




section \<open>Properties of the store\<close>

lemma store_new_frame:
  "store_new obj h = (a, h1) \<Longrightarrow> n \<le> length h \<Longrightarrow>
   take n h1 = take n h \<and> length h1 = Suc (length h) \<and> a = length h"
  by (auto simp: store_new_def)

lemma store_dict_set_frame:
  "n \<le> a \<Longrightarrow> take n (store_dict_set a key v h) = take n h
     \<and> length (store_dict_set a key v h) = length h"
  by (simp add: store_dict_set_def split: hobj.splits)

lemma store_list_append_frame:
  "n \<le> a \<Longrightarrow> take n (store_list_append a v h) = take n h
     \<and> length (store_list_append a v h) = length h"
  by (simp add: store_list_append_def split: hobj.splits)

lemma s_preprocess_comment_frame:
  assumes "s_preprocess_comment nl comment h w = (x, h', w')" and "n \<le> length h"
  shows "take n h' = take n h \<and> length h \<le> length h'"
  using assms
  by (auto simp: s_preprocess_comment_def store_new_def store_dict_set_frame
      split: hval.splits if_splits hobj.splits sum.splits prod.splits)

lemma s_preprocess_comments_frame:
  assumes "s_preprocess_comments nl comments pcs h w = (x, h', w')"
    and "n \<le> length h" and "n \<le> pcs"
  shows "take n h' = take n h \<and> length h \<le> length h'"
  using assms
proof (induction comments arbitrary: h w)
  case Nil
  then show ?case by simp
next
  case (Cons c cs)
  obtain y h1 w1 where c: "s_preprocess_comment nl c h w = (y, h1, w1)"
    by (cases "s_preprocess_comment nl c h w")
  note f = s_preprocess_comment_frame [OF c Cons.prems(2)]
  show ?case
  proof (cases y)
    case (Inl e)
    with Cons.prems(1) c f show ?thesis by simp
  next
    case (Inr pc)
    let ?h2 = "store_list_append pcs pc h1"
    from Cons.prems(1) c Inr
    have r: "s_preprocess_comments nl cs pcs ?h2 w1 = (x, h', w')" by simp
    have a: "take n ?h2 = take n h1" "length ?h2 = length h1"
      using store_list_append_frame [OF Cons.prems(3)] by simp_all
    with f Cons.prems(2) have "n \<le> length ?h2" by simp
    from Cons.IH [OF r this Cons.prems(3)] a f show ?thesis by simp
  qed
qed

lemma s_preprocess_games_frame:
  assumes "s_preprocess_games nl items pd h w = (x, h', w')"
    and "n \<le> length h" and "n \<le> pd"
  shows "take n h' = take n h \<and> length h \<le> length h'"
  using assms
proof (induction items arbitrary: h w)
  case Nil
  then show ?case by simp
next
  case (Cons item items)
  obtain game comments where item: "item = (game, comments)" by (cases item)
  let ?pcs = "length h" and ?h1 = "h @ [HList []]"
  have h1: "take n ?h1 = take n h" "n \<le> length ?h1" "n \<le> ?pcs"
    using Cons.prems(2) by simp_all
  show ?case
  proof (cases "iter_values comments ?h1")
    case (Inl e)
    with Cons.prems(1) item h1 show ?thesis by (auto simp: store_new_def)
  next
    case (Inr elems)
    obtain y h2 w2 where l: "s_preprocess_comments nl elems ?pcs ?h1 w = (y, h2, w2)"
      by (cases "s_preprocess_comments nl elems ?pcs ?h1 w")
    note f = s_preprocess_comments_frame [OF l h1(2) h1(3)]
    show ?thesis
    proof (cases y)
      case (Some e)
      with Cons.prems(1) item Inr l f h1 show ?thesis by (auto simp: store_new_def)
    next
      case None
      let ?h3 = "store_dict_set pd game (HRef ?pcs) h2"
      from Cons.prems(1) item Inr l None
      have r: "s_preprocess_games nl items pd ?h3 w2 = (x, h', w')"
        by (simp add: store_new_def)
      have a: "take n ?h3 = take n h2" "length ?h3 = length h2"
        using store_dict_set_frame [OF Cons.prems(3)] by simp_all
      with f h1 have "n \<le> length ?h3" by simp
      from Cons.IH [OF r this Cons.prems(3)] a f h1 show ?thesis by simp
    qed
  qed
qed

lemma s_preprocess_dataset_frame:
  "take (length h) (fst (snd (s_preprocess_dataset nl dataset h w))) = h"
proof -
  have g: "take (length h) h' = h"
    if "s_preprocess_games nl items (length h) (h @ [HDict []]) w = (x, h', w')"
    for items x h' w'
    using s_preprocess_games_frame [OF that, of "length h"] by simp
  show ?thesis
    by (auto simp: s_preprocess_dataset_def store_new_def g
        split: hval.splits hobj.splits prod.splits option.splits)
qed

section \<open>Claims on the store\<close>

text \<open>
  C10. \<open>preprocess_dataset\<close> does not change its input: whatever the dataset, and
  whether the call returns or raises, every object that was in the store before the
  call (the dict of the dataset, the lists of comments, the comment records and any
  other) is in the store after it, at its address and with the same entries. What the
  call returns is a new object.
\<close>

theorem preprocess_dataset_keeps_input:
  "take (length h) (fst (snd (s_preprocess_dataset nl dataset h w))) = h
   \<and> (\<forall>a < length h. fst (snd (s_preprocess_dataset nl dataset h w)) ! a = h ! a)
   \<and> (\<forall>r. fst (s_preprocess_dataset nl dataset h w) = Inr r \<longrightarrow> r = HRef (length h))"
proof -
  note f = s_preprocess_dataset_frame [of h nl dataset w]
  have "fst (snd (s_preprocess_dataset nl dataset h w)) ! a = h ! a" if "a < length h" for a
    using that f by (metis nth_take)
  moreover have "r = HRef (length h)"
    if "fst (s_preprocess_dataset nl dataset h w) = Inr r" for r
    using that
    by (auto simp: s_preprocess_dataset_def store_new_def
        split: hval.splits hobj.splits prod.splits option.splits if_splits)
  ultimately show ?thesis using f by blast
qed

theorem preprocess_dataset_keeps_input_witness:
  "fst (s_preprocess_dataset example_nltk (HRef 0) example_store world0) = Inr (HRef 3)
   \<and> take 3 (fst (snd (s_preprocess_dataset example_nltk (HRef 0) example_store world0)))
      = example_store
   \<and> fst (snd (s_preprocess_dataset example_nltk (HRef 0) example_store world0)) ! 2
      = HDict [(''username'', HStr ''ann''), (''rating'', HStr ''8''),
               (''value'', HStr ''Catan IS Great!! (1995)'')]
   \<and> fst (snd (s_preprocess_dataset example_nltk (HRef 0) example_store world0)) ! 5
      = HDict [(''username'', HStr ''ann''), (''rating'', HStr ''8''),
               (''value'', HStr ''Catan IS Great!! (1995)''),
               (''clean_text'', HStr ''catan is great ''), (''tokens'', HRef 6)]"
proof -
  have n: "length example_store = 3" by (simp add: example_store_def)
  have r: "fst (s_preprocess_dataset example_nltk (HRef 0) example_store world0) = Inr (HRef 3)"
    by code_simp
  have c: "fst (snd (s_preprocess_dataset example_nltk (HRef 0) example_store world0)) ! 5
      = HDict [(''username'', HStr ''ann''), (''rating'', HStr ''8''),
               (''value'', HStr ''Catan IS Great!! (1995)''),
               (''clean_text'', HStr ''catan is great ''), (''tokens'', HRef 6)]"
    by code_simp
  have o: "example_store ! 2
      = HDict [(''username'', HStr ''ann''), (''rating'', HStr ''8''),
               (''value'', HStr ''Catan IS Great!! (1995)'')]"
    by (simp add: example_store_def)
  note t = preprocess_dataset_keeps_input [of example_store example_nltk "HRef 0" world0]
  from t have "take 3 (fst (snd (s_preprocess_dataset example_nltk (HRef 0) example_store
      world0))) = example_store"
    unfolding n by blast
  moreover from t n have "fst (snd (s_preprocess_dataset example_nltk (HRef 0) example_store
      world0)) ! 2 = example_store ! 2"
    by simp
  ultimately show ?thesis using r c o by simp
qed

end
